theory Spec2Isabelle
  imports Main "HOL-Library.Word"
begin

unbundle bit_operations_syntax

section \<open>Machine types and protocol constants\<close>

type_synonym u8 = "8 word"
type_synonym u32 = "32 word"
type_synonym u64 = "64 word"

abbreviation (input) SSH_FX_OK :: u32 where "SSH_FX_OK \<equiv> 0"
abbreviation (input) SSH_FX_EOF :: u32 where "SSH_FX_EOF \<equiv> 1"
abbreviation (input) SSH_FX_NO_SUCH_FILE :: u32 where "SSH_FX_NO_SUCH_FILE \<equiv> 2"
abbreviation (input) SSH_FX_PERMISSION_DENIED :: u32 where "SSH_FX_PERMISSION_DENIED \<equiv> 3"
abbreviation (input) SSH_FX_FAILURE :: u32 where "SSH_FX_FAILURE \<equiv> 4"
abbreviation (input) SSH_FX_BAD_MESSAGE :: u32 where "SSH_FX_BAD_MESSAGE \<equiv> 5"
abbreviation (input) SSH_FX_OP_UNSUPPORTED :: u32 where "SSH_FX_OP_UNSUPPORTED \<equiv> 8"

abbreviation (input) SSH_FXF_READ :: u32 where "SSH_FXF_READ \<equiv> 0x1"
abbreviation (input) SSH_FXF_WRITE :: u32 where "SSH_FXF_WRITE \<equiv> 0x2"
abbreviation (input) SSH_FXF_APPEND :: u32 where "SSH_FXF_APPEND \<equiv> 0x4"
abbreviation (input) SSH_FXF_CREAT :: u32 where "SSH_FXF_CREAT \<equiv> 0x8"
abbreviation (input) SSH_FXF_TRUNC :: u32 where "SSH_FXF_TRUNC \<equiv> 0x10"
abbreviation (input) SSH_FXF_EXCL :: u32 where "SSH_FXF_EXCL \<equiv> 0x20"

section \<open>Host constants\<close>

text \<open>
  The values of the errno and open-flag macros come from the host's headers, not from
  the server. They are parameters of the model; \<open>linux_errno\<close> and \<open>linux_fcntl\<close> are the
  values of Linux on x86-64.
\<close>

record errno_h =
  ENOENT :: int
  ENOTDIR :: int
  EBADF :: int
  ELOOP :: int
  EPERM :: int
  EACCES :: int
  EFAULT :: int
  ENAMETOOLONG :: int
  EINVAL :: int

definition linux_errno :: errno_h where
  "linux_errno = \<lparr>ENOENT = 2, ENOTDIR = 20, EBADF = 9, ELOOP = 40, EPERM = 1,
     EACCES = 13, EFAULT = 14, ENAMETOOLONG = 36, EINVAL = 22\<rparr>"

text \<open>The labels of the switch in \<open>errno_to_sftp\<close>; C requires them pairwise distinct.\<close>

definition case_labels :: "errno_h \<Rightarrow> int list" where
  "case_labels t = [0, ENOENT t, ENOTDIR t, EBADF t, ELOOP t, EPERM t, EACCES t, EFAULT t,
     ENAMETOOLONG t, EINVAL t]"

record fcntl_h =
  O_RDONLY :: int
  O_WRONLY :: int
  O_RDWR :: int
  O_CREAT :: int
  O_TRUNC :: int
  O_EXCL :: int
  O_APPEND :: int

definition linux_fcntl :: fcntl_h where
  "linux_fcntl = \<lparr>O_RDONLY = 0, O_WRONLY = 1, O_RDWR = 2, O_CREAT = 0x40, O_TRUNC = 0x200,
     O_EXCL = 0x80, O_APPEND = 0x400\<rparr>"

section \<open>POSIX to SFTP conversion\<close>

definition pflags_to_unix :: "fcntl_h \<Rightarrow> u32 \<Rightarrow> int" where
  "pflags_to_unix h pflags =
    (let flags = 0;
         flags = (if pflags AND SSH_FXF_READ \<noteq> 0 \<and> pflags AND SSH_FXF_WRITE \<noteq> 0 then O_RDWR h
                  else if pflags AND SSH_FXF_READ \<noteq> 0 then O_RDONLY h
                  else if pflags AND SSH_FXF_WRITE \<noteq> 0 then O_WRONLY h
                  else flags);
         flags = (if pflags AND SSH_FXF_CREAT \<noteq> 0 then flags OR O_CREAT h else flags);
         flags = (if pflags AND SSH_FXF_TRUNC \<noteq> 0 then flags OR O_TRUNC h else flags);
         flags = (if pflags AND SSH_FXF_EXCL \<noteq> 0 then flags OR O_EXCL h else flags)
     in flags)"

definition errno_to_sftp :: "errno_h \<Rightarrow> int \<Rightarrow> u32" where
  "errno_to_sftp t unix_error =
    (if unix_error = 0 then SSH_FX_OK
     else if unix_error = ENOENT t \<or> unix_error = ENOTDIR t \<or> unix_error = EBADF t
             \<or> unix_error = ELOOP t then SSH_FX_NO_SUCH_FILE
     else if unix_error = EPERM t \<or> unix_error = EACCES t \<or> unix_error = EFAULT t
          then SSH_FX_PERMISSION_DENIED
     else if unix_error = ENAMETOOLONG t \<or> unix_error = EINVAL t then SSH_FX_BAD_MESSAGE
     else SSH_FX_FAILURE)"

section \<open>Aborts and results\<close>

text \<open>
  The server ends the process on a failed \<open>assert\<close>, on \<open>exit\<close>, and when a host call is
  handed a pointer it cannot use. A function that can end the process returns
  \<open>Inl\<close> of the reason, otherwise \<open>Inr\<close> of its result.
\<close>

datatype abort = AssertFail | ExitFailure | ExitSuccess | HostFault

definition bind_r :: "abort + 'a \<Rightarrow> ('a \<Rightarrow> abort + 'b) \<Rightarrow> abort + 'b" where
  "bind_r m f = (case m of Inl e \<Rightarrow> Inl e | Inr x \<Rightarrow> f x)"

section \<open>Buffers\<close>

abbreviation (input) MAX_PACKET :: nat where "MAX_PACKET \<equiv> 34000"
abbreviation (input) MAX_ATTRS_BYTES :: nat where "MAX_ATTRS_BYTES \<equiv> 32"

text \<open>
  The input buffer is consumed from the front: the model keeps the unread bytes, so
  \<open>ibuff.count\<close> is their number. (\<open>get_string\<close> overwrites only bytes already consumed.)

  The output buffer is the array \<open>data\<close>, the write pointer \<open>p_data\<close> as an offset into it,
  and the space left \<open>count\<close>.
\<close>

record buff =
  count :: u32
  p_data :: nat
  data :: "nat \<Rightarrow> u8"

type_synonym buff_save_t = "u32 \<times> nat"

definition buff_save :: "buff \<Rightarrow> buff_save_t" where
  "buff_save ob = (count ob, p_data ob)"

definition buff_swap :: "buff_save_t \<Rightarrow> buff \<Rightarrow> buff_save_t \<times> buff" where
  "buff_swap p_buff ob =
     ((count ob, p_data ob), ob\<lparr>count := fst p_buff, p_data := snd p_buff\<rparr>)"

text \<open>A C string is the bytes before the first NUL.\<close>

definition cstr :: "u8 list \<Rightarrow> u8 list" where
  "cstr s = takeWhile (\<lambda>c. c \<noteq> 0) s"

definition strlen :: "u8 list \<Rightarrow> nat" where
  "strlen s = length (cstr s)"

definition memcpy :: "(nat \<Rightarrow> u8) \<Rightarrow> nat \<Rightarrow> u8 list \<Rightarrow> (nat \<Rightarrow> u8)" where
  "memcpy m p bs = (\<lambda>i. if p \<le> i \<and> i < p + length bs then bs ! (i - p) else m i)"

subsection \<open>Reading the input buffer\<close>

definition get_byte :: "u8 list \<Rightarrow> abort + (u8 \<times> u8 list)" where
  "get_byte ib = (case ib of [] \<Rightarrow> Inl AssertFail | b # rest \<Rightarrow> Inr (b, rest))"

definition get_uint32 :: "u8 list \<Rightarrow> abort + (u32 \<times> u8 list)" where
  "get_uint32 ib =
     (case ib of
        b0 # b1 # b2 # b3 # rest \<Rightarrow>
          Inr (push_bit 24 (ucast b0) OR push_bit 16 (ucast b1) OR push_bit 8 (ucast b2)
                 OR ucast b3, rest)
      | _ \<Rightarrow> Inl AssertFail)"

definition get_uint64 :: "u8 list \<Rightarrow> abort + (u64 \<times> u8 list)" where
  "get_uint64 ib =
     bind_r (get_uint32 ib) (\<lambda>(hi, ib).
     bind_r (get_uint32 ib) (\<lambda>(lo, ib).
       Inr (push_bit 32 (ucast hi) OR ucast lo, ib)))"

text \<open>
  \<open>get_string\<close> returns the bytes of the string and its length; the source returns a
  pointer to them with a NUL stored behind, so a caller that reads the result as a C
  string sees \<open>cstr\<close> of the bytes.
\<close>

definition get_string :: "u8 list \<Rightarrow> abort + (u8 list \<times> u32 \<times> u8 list)" where
  "get_string ib =
     bind_r (get_uint32 ib) (\<lambda>(len_bytes, ib).
       if unat len_bytes \<le> length ib
       then Inr (take (unat len_bytes) ib, len_bytes, drop (unat len_bytes) ib)
       else Inl AssertFail)"

definition get_data :: "u8 list \<Rightarrow> abort + (u8 list \<times> u32 \<times> u8 list)" where
  "get_data ib =
     bind_r (get_uint32 ib) (\<lambda>(len_bytes, ib).
       if unat len_bytes \<le> length ib
       then Inr (take (unat len_bytes) ib, len_bytes, drop (unat len_bytes) ib)
       else Inl AssertFail)"

subsection \<open>Writing the output buffer\<close>

definition put_byte :: "u8 \<Rightarrow> buff \<Rightarrow> abort + buff" where
  "put_byte d ob =
     (if count ob > 0
      then Inr (ob\<lparr>data := (data ob)(p_data ob := d), count := count ob - 1,
                   p_data := p_data ob + 1\<rparr>)
      else Inl AssertFail)"

definition put_uint32 :: "u32 \<Rightarrow> buff \<Rightarrow> abort + buff" where
  "put_uint32 d ob =
     (if count ob \<ge> 4
      then Inr (ob\<lparr>data := (data ob)
                     (p_data ob := ucast (drop_bit 24 d),
                      p_data ob + 1 := ucast (drop_bit 16 d),
                      p_data ob + 2 := ucast (drop_bit 8 d),
                      p_data ob + 3 := ucast d),
                   count := count ob - 4, p_data := p_data ob + 4\<rparr>)
      else Inl AssertFail)"

definition put_uint64 :: "u64 \<Rightarrow> buff \<Rightarrow> abort + buff" where
  "put_uint64 d ob =
     bind_r (put_uint32 (ucast (drop_bit 32 d)) ob) (put_uint32 (ucast d))"

definition put_cstring :: "u8 list \<Rightarrow> buff \<Rightarrow> abort + buff" where
  "put_cstring sz_str ob =
     (let len = strlen sz_str in
      bind_r (put_uint32 (of_nat len) ob) (\<lambda>ob.
        if len \<le> unat (count ob)
        then Inr (ob\<lparr>data := memcpy (data ob) (p_data ob) (cstr sz_str),
                     count := count ob - of_nat len, p_data := p_data ob + len\<rparr>)
        else Inl AssertFail))"

section \<open>File attributes\<close>

abbreviation (input) SSH_FILEXFER_ATTR_SIZE :: u32 where "SSH_FILEXFER_ATTR_SIZE \<equiv> 0x1"
abbreviation (input) SSH_FILEXFER_ATTR_UIDGID :: u32 where "SSH_FILEXFER_ATTR_UIDGID \<equiv> 0x2"
abbreviation (input) SSH_FILEXFER_ATTR_PERMISSIONS :: u32 where "SSH_FILEXFER_ATTR_PERMISSIONS \<equiv> 0x4"
abbreviation (input) SSH_FILEXFER_ATTR_ACMODTIME :: u32 where "SSH_FILEXFER_ATTR_ACMODTIME \<equiv> 0x8"
abbreviation (input) SSH_FILEXFER_ATTR_EXTENDED :: u32 where "SSH_FILEXFER_ATTR_EXTENDED \<equiv> 0x80000000"

record attrs_t =
  flags :: u32
  permissions :: u32
  size :: u64
  uid :: u32
  gid :: u32
  atime :: u32
  mtime :: u32

text \<open>The record after \<open>memset(p_attrs, 0, sizeof ...)\<close>.\<close>

definition zero_attrs :: attrs_t where
  "zero_attrs = \<lparr>flags = 0, permissions = 0, size = 0, uid = 0, gid = 0, atime = 0, mtime = 0\<rparr>"

text \<open>The loop \<open>while (count--)\<close> of \<open>get_attrs\<close>, discarding pairs of strings.\<close>

fun discard_extended :: "nat \<Rightarrow> u8 list \<Rightarrow> abort + u8 list" where
  "discard_extended 0 ib = Inr ib"
| "discard_extended (Suc n) ib =
     bind_r (get_string ib) (\<lambda>(_, _, ib).
     bind_r (get_string ib) (\<lambda>(_, _, ib).
       discard_extended n ib))"

definition get_attrs :: "u8 list \<Rightarrow> abort + (attrs_t \<times> u8 list)" where
  "get_attrs ib =
     (let a = zero_attrs in
      bind_r (get_uint32 ib) (\<lambda>(f, ib).
      let a = a\<lparr>flags := f\<rparr> in
      bind_r (if flags a AND SSH_FILEXFER_ATTR_SIZE \<noteq> 0
              then bind_r (get_uint64 ib) (\<lambda>(v, ib). Inr (a\<lparr>size := v\<rparr>, ib))
              else Inr (a, ib)) (\<lambda>(a, ib).
      bind_r (if flags a AND SSH_FILEXFER_ATTR_UIDGID \<noteq> 0
              then bind_r (get_uint32 ib) (\<lambda>(u, ib).
                   bind_r (get_uint32 ib) (\<lambda>(g, ib). Inr (a\<lparr>uid := u, gid := g\<rparr>, ib)))
              else Inr (a, ib)) (\<lambda>(a, ib).
      bind_r (if flags a AND SSH_FILEXFER_ATTR_PERMISSIONS \<noteq> 0
              then bind_r (get_uint32 ib) (\<lambda>(p, ib). Inr (a\<lparr>permissions := p\<rparr>, ib))
              else Inr (a, ib)) (\<lambda>(a, ib).
      bind_r (if flags a AND SSH_FILEXFER_ATTR_ACMODTIME \<noteq> 0
              then bind_r (get_uint32 ib) (\<lambda>(t1, ib).
                   bind_r (get_uint32 ib) (\<lambda>(t2, ib). Inr (a\<lparr>atime := t1, mtime := t2\<rparr>, ib)))
              else Inr (a, ib)) (\<lambda>(a, ib).
      if flags a AND SSH_FILEXFER_ATTR_EXTENDED \<noteq> 0
      then bind_r (get_uint32 ib) (\<lambda>(n, ib).
           bind_r (discard_extended (unat n) ib) (\<lambda>ib. Inr (a, ib)))
      else Inr (a, ib)))))))"

definition put_attrs :: "attrs_t \<Rightarrow> buff \<Rightarrow> abort + buff" where
  "put_attrs a ob =
     bind_r (put_uint32 (flags a) ob) (\<lambda>ob.
     bind_r (if flags a AND SSH_FILEXFER_ATTR_SIZE \<noteq> 0 then put_uint64 (size a) ob
             else Inr ob) (\<lambda>ob.
     bind_r (if flags a AND SSH_FILEXFER_ATTR_UIDGID \<noteq> 0
             then bind_r (put_uint32 (uid a) ob) (put_uint32 (gid a))
             else Inr ob) (\<lambda>ob.
     bind_r (if flags a AND SSH_FILEXFER_ATTR_PERMISSIONS \<noteq> 0 then put_uint32 (permissions a) ob
             else Inr ob) (\<lambda>ob.
     if flags a AND SSH_FILEXFER_ATTR_ACMODTIME \<noteq> 0
     then bind_r (put_uint32 (atime a) ob) (put_uint32 (mtime a))
     else Inr ob))))"


section \<open>Handles\<close>

datatype handle_use_t = HANDLE_FREE | HANDLE_FILE | HANDLE_DIR

text \<open>A \<open>DIR *\<close> is modelled as an address, 0 for \<open>NULL\<close>.\<close>

record fxp_handle_t =
  use :: handle_use_t
  fd :: int
  p_dir :: nat

abbreviation (input) MAX_HANDLES :: nat where "MAX_HANDLES \<equiv> 99"
abbreviation (input) MAX_HANDLE_DIGITS :: u32 where "MAX_HANDLE_DIGITS \<equiv> 2"

text \<open>The table \<open>handles\<close> as the C runtime zero-initialises it.\<close>

definition init_handles :: "fxp_handle_t list" where
  "init_handles = replicate MAX_HANDLES \<lparr>use = HANDLE_FREE, fd = 0, p_dir = 0\<rparr>"

subsection \<open>The C library's \<open>strtoul\<close>\<close>

text \<open>
  \<open>strtoul\<close> belongs to the C library. It is modelled after ISO C (7.22.1.4), for base 10
  in the C locale with a 64-bit \<open>unsigned long\<close>: white space is skipped, one sign is
  accepted, the digits that follow are converted, and a minus sign negates the value in
  the unsigned type. The argument is the C string; the result is the value and the text
  at \<open>*endptr\<close>, which is empty when \<open>endptr\<close> points at the terminating NUL. Without any
  digit the value is 0 and \<open>endptr\<close> is the start of the string.
\<close>

abbreviation (input) ULONG_MAX :: nat where "ULONG_MAX \<equiv> 2 ^ 64 - 1"

definition isspace :: "u8 \<Rightarrow> bool" where
  "isspace c = (c = 0x20 \<or> (0x09 \<le> c \<and> c \<le> 0x0D))"

definition isdigit :: "u8 \<Rightarrow> bool" where
  "isdigit c = (0x30 \<le> c \<and> c \<le> 0x39)"

definition strtoul :: "u8 list \<Rightarrow> nat \<times> u8 list" where
  "strtoul nptr =
     (let s = dropWhile isspace nptr;
          neg = (s \<noteq> [] \<and> hd s = 0x2D);
          s = (if s \<noteq> [] \<and> (hd s = 0x2D \<or> hd s = 0x2B) then tl s else s);
          digits = takeWhile isdigit s;
          acc = foldl (\<lambda>v c. v * 10 + (unat c - 48)) 0 digits
      in if digits = [] then (0, nptr)
         else (if acc > ULONG_MAX then ULONG_MAX
               else if neg then (2 ^ 64 - acc) mod 2 ^ 64 else acc,
               dropWhile isdigit s))"

subsection \<open>Decoding and allocation\<close>

text \<open>
  \<open>get_handle\<close> returns a pointer into the table or \<open>NULL\<close>; the model returns the index of
  the slot or \<open>None\<close>, and the rest of the input buffer.
\<close>

definition get_handle :: "fxp_handle_t list \<Rightarrow> u8 list \<Rightarrow> abort + (nat option \<times> u8 list)" where
  "get_handle hs ib =
     bind_r (get_string ib) (\<lambda>(sz_handle, handle_len, ib).
       if handle_len \<noteq> MAX_HANDLE_DIGITS then Inr (None, ib)
       else
         let (handle, ep) = strtoul (cstr sz_handle) in
         if ep \<noteq> [] then Inr (None, ib)
         else if handle = 0 then Inr (None, ib)
         else if handle > MAX_HANDLES then Inr (None, ib)
         else if use (hs ! (handle - 1)) = HANDLE_FREE then Inr (None, ib)
         else Inr (Some (handle - 1), ib))"

text \<open>
  The search \<open>for (handle = 0; handle < elemof(handles); handle++)\<close> for a free slot; the
  first argument counts the slots still to visit.
\<close>

fun free_slot :: "nat \<Rightarrow> nat \<Rightarrow> fxp_handle_t list \<Rightarrow> nat option" where
  "free_slot 0 handle hs = None"
| "free_slot (Suc n) handle hs =
     (if use (hs ! handle) = HANDLE_FREE then Some handle else free_slot n (Suc handle) hs)"

definition handle_alloc_file :: "int \<Rightarrow> fxp_handle_t list \<Rightarrow> nat \<times> fxp_handle_t list" where
  "handle_alloc_file fd' hs =
     (case free_slot MAX_HANDLES 0 hs of
        Some handle \<Rightarrow> (handle + 1, hs[handle := (hs ! handle)\<lparr>use := HANDLE_FILE, fd := fd'\<rparr>])
      | None \<Rightarrow> (0, hs))"

definition handle_alloc_dir ::
  "int \<Rightarrow> nat \<Rightarrow> fxp_handle_t list \<Rightarrow> nat \<times> fxp_handle_t list" where
  "handle_alloc_dir fd' p_dir' hs =
     (case free_slot MAX_HANDLES 0 hs of
        Some handle \<Rightarrow>
          (handle + 1, hs[handle := (hs ! handle)\<lparr>use := HANDLE_DIR, fd := fd', p_dir := p_dir'\<rparr>])
      | None \<Rightarrow> (0, hs))"


section \<open>The host\<close>

text \<open>
  The server calls the operating system for every file operation. The model takes the
  host as a parameter: a record with one function for each call the server makes. Each
  function takes the state of the world \<open>'w\<close> and returns the result of the call with
  the new state. A result \<open>(r, e)\<close> is the value the call returns and the value of
  \<open>errno\<close> after it; byte strings and \<open>stat\<close> records the call stores through a pointer
  come with the result. A path is a C string.

  \<open>telldir\<close>, \<open>readdir\<close> and \<open>seekdir\<close> dereference their \<open>DIR *\<close> argument: a host may
  answer \<open>Inl HostFault\<close> for an address that is not an open directory stream.
\<close>

type_synonym path = "u8 list"

record stat_t =
  st_mode :: u32
  st_uid :: u32
  st_gid :: u32
  st_size :: u64
  st_atime :: u64
  st_mtime :: u64

record 'w host =
  errno_tab :: errno_h
  fcntl_tab :: fcntl_h
  os_open :: "path \<Rightarrow> int \<Rightarrow> u32 \<Rightarrow> 'w \<Rightarrow> (int \<times> int) \<times> 'w"
  os_close :: "int \<Rightarrow> 'w \<Rightarrow> (int \<times> int) \<times> 'w"
  os_lseek :: "int \<Rightarrow> u64 \<Rightarrow> 'w \<Rightarrow> (int \<times> int) \<times> 'w"
  os_read :: "int \<Rightarrow> u32 \<Rightarrow> 'w \<Rightarrow> (int \<times> int \<times> u8 list) \<times> 'w"
  os_write :: "int \<Rightarrow> u8 list \<Rightarrow> 'w \<Rightarrow> (int \<times> int) \<times> 'w"
  os_stat :: "path \<Rightarrow> 'w \<Rightarrow> (int \<times> int \<times> stat_t) \<times> 'w"
  os_lstat :: "path \<Rightarrow> 'w \<Rightarrow> (int \<times> int \<times> stat_t) \<times> 'w"
  os_fstat :: "int \<Rightarrow> 'w \<Rightarrow> (int \<times> int \<times> stat_t) \<times> 'w"
  os_fstatat :: "int \<Rightarrow> path \<Rightarrow> 'w \<Rightarrow> (int \<times> int \<times> stat_t) \<times> 'w"
  os_chmod :: "path \<Rightarrow> u32 \<Rightarrow> 'w \<Rightarrow> (int \<times> int) \<times> 'w"
  os_utimes :: "path \<Rightarrow> u32 \<Rightarrow> u32 \<Rightarrow> 'w \<Rightarrow> (int \<times> int) \<times> 'w"
  os_chown :: "path \<Rightarrow> u32 \<Rightarrow> u32 \<Rightarrow> 'w \<Rightarrow> (int \<times> int) \<times> 'w"
  os_fchmod :: "int \<Rightarrow> u32 \<Rightarrow> 'w \<Rightarrow> (int \<times> int) \<times> 'w"
  os_futimes :: "int \<Rightarrow> u32 \<Rightarrow> u32 \<Rightarrow> 'w \<Rightarrow> (int \<times> int) \<times> 'w"
  os_fchown :: "int \<Rightarrow> u32 \<Rightarrow> u32 \<Rightarrow> 'w \<Rightarrow> (int \<times> int) \<times> 'w"
  os_fdopendir :: "int \<Rightarrow> 'w \<Rightarrow> (nat \<times> int) \<times> 'w"
  os_closedir :: "nat \<Rightarrow> 'w \<Rightarrow> (int \<times> int) \<times> 'w"
  os_telldir :: "nat \<Rightarrow> 'w \<Rightarrow> abort + (int \<times> 'w)"
  os_readdir :: "nat \<Rightarrow> 'w \<Rightarrow> abort + (path option \<times> 'w)"
  os_seekdir :: "nat \<Rightarrow> int \<Rightarrow> 'w \<Rightarrow> abort + 'w"
  os_remove :: "path \<Rightarrow> 'w \<Rightarrow> (int \<times> int) \<times> 'w"
  os_mkdir :: "path \<Rightarrow> u32 \<Rightarrow> 'w \<Rightarrow> (int \<times> int) \<times> 'w"
  os_rmdir :: "path \<Rightarrow> 'w \<Rightarrow> (int \<times> int) \<times> 'w"
  os_realpath :: "path \<Rightarrow> 'w \<Rightarrow> (path option \<times> int) \<times> 'w"
  os_rename :: "path \<Rightarrow> path \<Rightarrow> 'w \<Rightarrow> (int \<times> int) \<times> 'w"
  os_readlink :: "path \<Rightarrow> u32 \<Rightarrow> 'w \<Rightarrow> (int \<times> int \<times> u8 list) \<times> 'w"
  os_symlink :: "path \<Rightarrow> path \<Rightarrow> 'w \<Rightarrow> (int \<times> int) \<times> 'w"

text \<open>The private data of the server, the input buffer apart, and the world.\<close>

record 'w state =
  obuff :: buff
  have_init :: bool
  handles :: "fxp_handle_t list"
  world :: 'w


section \<open>Responses\<close>

abbreviation (input) SSH_FXP_INIT :: u8 where "SSH_FXP_INIT \<equiv> 1"
abbreviation (input) SSH_FXP_VERSION :: u8 where "SSH_FXP_VERSION \<equiv> 2"
abbreviation (input) SSH_FXP_OPEN :: u8 where "SSH_FXP_OPEN \<equiv> 3"
abbreviation (input) SSH_FXP_CLOSE :: u8 where "SSH_FXP_CLOSE \<equiv> 4"
abbreviation (input) SSH_FXP_READ :: u8 where "SSH_FXP_READ \<equiv> 5"
abbreviation (input) SSH_FXP_WRITE :: u8 where "SSH_FXP_WRITE \<equiv> 6"
abbreviation (input) SSH_FXP_LSTAT :: u8 where "SSH_FXP_LSTAT \<equiv> 7"
abbreviation (input) SSH_FXP_FSTAT :: u8 where "SSH_FXP_FSTAT \<equiv> 8"
abbreviation (input) SSH_FXP_SETSTAT :: u8 where "SSH_FXP_SETSTAT \<equiv> 9"
abbreviation (input) SSH_FXP_FSETSTAT :: u8 where "SSH_FXP_FSETSTAT \<equiv> 10"
abbreviation (input) SSH_FXP_OPENDIR :: u8 where "SSH_FXP_OPENDIR \<equiv> 11"
abbreviation (input) SSH_FXP_READDIR :: u8 where "SSH_FXP_READDIR \<equiv> 12"
abbreviation (input) SSH_FXP_REMOVE :: u8 where "SSH_FXP_REMOVE \<equiv> 13"
abbreviation (input) SSH_FXP_MKDIR :: u8 where "SSH_FXP_MKDIR \<equiv> 14"
abbreviation (input) SSH_FXP_RMDIR :: u8 where "SSH_FXP_RMDIR \<equiv> 15"
abbreviation (input) SSH_FXP_REALPATH :: u8 where "SSH_FXP_REALPATH \<equiv> 16"
abbreviation (input) SSH_FXP_STAT :: u8 where "SSH_FXP_STAT \<equiv> 17"
abbreviation (input) SSH_FXP_RENAME :: u8 where "SSH_FXP_RENAME \<equiv> 18"
abbreviation (input) SSH_FXP_READLINK :: u8 where "SSH_FXP_READLINK \<equiv> 19"
abbreviation (input) SSH_FXP_SYMLINK :: u8 where "SSH_FXP_SYMLINK \<equiv> 20"
abbreviation (input) SSH_FXP_STATUS :: u8 where "SSH_FXP_STATUS \<equiv> 101"
abbreviation (input) SSH_FXP_HANDLE :: u8 where "SSH_FXP_HANDLE \<equiv> 102"
abbreviation (input) SSH_FXP_DATA :: u8 where "SSH_FXP_DATA \<equiv> 103"
abbreviation (input) SSH_FXP_NAME :: u8 where "SSH_FXP_NAME \<equiv> 104"
abbreviation (input) SSH_FXP_ATTRS :: u8 where "SSH_FXP_ATTRS \<equiv> 105"

abbreviation (input) SFTP_PROTOCOL_VERSION :: u32 where "SFTP_PROTOCOL_VERSION \<equiv> 3"
abbreviation (input) DEFAULT_FILE_PERM :: u32 where "DEFAULT_FILE_PERM \<equiv> 0x1B6"
abbreviation (input) DEFAULT_DIR_PERM :: u32 where "DEFAULT_DIR_PERM \<equiv> 0x1FF"
abbreviation (input) PERM_MASK :: u32 where "PERM_MASK \<equiv> 0x1FF"

text \<open>
  \<open>DEFAULT_FILE_PERM\<close> is octal 0666; \<open>DEFAULT_DIR_PERM\<close> and \<open>PERM_MASK\<close> are octal 0777.
  A string literal of the source is the list of its bytes.
\<close>

definition bytes_of :: "string \<Rightarrow> u8 list" where
  "bytes_of s = map of_char s"

definition status_text :: "u32 \<Rightarrow> string" where
  "status_text status =
     (if status = SSH_FX_OK then ''Success''
      else if status = SSH_FX_EOF then ''End of file''
      else if status = SSH_FX_NO_SUCH_FILE then ''No such file''
      else if status = SSH_FX_PERMISSION_DENIED then ''Permission denied''
      else if status = SSH_FX_FAILURE then ''Failure''
      else if status = SSH_FX_BAD_MESSAGE then ''Bad message''
      else if status = SSH_FX_OP_UNSUPPORTED then ''Operation unsupported''
      else ''Unknown error'')"

definition put_status :: "u32 \<Rightarrow> u32 \<Rightarrow> buff \<Rightarrow> abort + buff" where
  "put_status id' status ob =
     bind_r (put_byte SSH_FXP_STATUS ob) (\<lambda>ob.
     bind_r (put_uint32 id' ob) (\<lambda>ob.
     bind_r (put_uint32 status ob) (\<lambda>ob.
     bind_r (put_cstring (bytes_of (status_text status)) ob) (\<lambda>ob.
       put_cstring (bytes_of ''en'') ob))))"

text \<open>\<open>sprintf(buff, "%02lu", handle)\<close> for a handle of at most two digits.\<close>

definition sprintf_02lu :: "nat \<Rightarrow> u8 list" where
  "sprintf_02lu handle = [of_nat (48 + handle div 10), of_nat (48 + handle mod 10)]"

definition put_handle :: "u32 \<Rightarrow> nat \<Rightarrow> buff \<Rightarrow> abort + buff" where
  "put_handle id' handle ob =
     (if \<not> handle > 0 then Inl AssertFail
      else if \<not> handle \<le> MAX_HANDLES then Inl AssertFail
      else
        bind_r (put_byte SSH_FXP_HANDLE ob) (\<lambda>ob.
        bind_r (put_uint32 id' ob) (\<lambda>ob.
          put_cstring (sprintf_02lu handle) ob)))"

text \<open>A handler writes its response into the output buffer of the state.\<close>

definition reply :: "(buff \<Rightarrow> abort + buff) \<Rightarrow> 'w state \<Rightarrow> abort + 'w state" where
  "reply f s = bind_r (f (obuff s)) (\<lambda>ob. Inr (s\<lparr>obuff := ob\<rparr>))"

definition stat_to_attr :: "stat_t \<Rightarrow> attrs_t" where
  "stat_to_attr p_stat =
     zero_attrs\<lparr>flags := SSH_FILEXFER_ATTR_SIZE OR SSH_FILEXFER_ATTR_UIDGID
                  OR SSH_FILEXFER_ATTR_PERMISSIONS OR SSH_FILEXFER_ATTR_ACMODTIME,
       size := st_size p_stat, uid := st_uid p_stat, gid := st_gid p_stat,
       permissions := st_mode p_stat, atime := ucast (st_atime p_stat),
       mtime := ucast (st_mtime p_stat)\<rparr>"

text \<open>The ATTRS response that \<open>do_stat\<close> and \<open>sftp_fstat\<close> both write.\<close>

definition put_stat_attrs :: "u32 \<Rightarrow> stat_t \<Rightarrow> buff \<Rightarrow> abort + buff" where
  "put_stat_attrs id' st ob =
     bind_r (put_byte SSH_FXP_ATTRS ob) (\<lambda>ob.
     bind_r (put_uint32 id' ob) (\<lambda>ob.
       put_attrs (stat_to_attr st) ob))"

section \<open>Request handlers\<close>

text \<open>
  The request id of the source, \<open>id\<close>, is written \<open>id'\<close>.
  Each handler takes the host, the input buffer after the opcode and the state, and
  returns the state with the response in the output buffer.
\<close>

definition sftp_init :: "u8 list \<Rightarrow> 'w state \<Rightarrow> abort + 'w state" where
  "sftp_init ib s =
     bind_r (get_uint32 ib) (\<lambda>(version, ib).
       if \<not> version \<ge> SFTP_PROTOCOL_VERSION then Inl AssertFail
       else reply (\<lambda>ob. bind_r (put_byte SSH_FXP_VERSION ob) (put_uint32 SFTP_PROTOCOL_VERSION)) s)"

definition sftp_open :: "'w host \<Rightarrow> u8 list \<Rightarrow> 'w state \<Rightarrow> abort + 'w state" where
  "sftp_open h ib s =
     bind_r (get_uint32 ib) (\<lambda>(id', ib).
     bind_r (get_string ib) (\<lambda>(sz_filename, _, ib).
     bind_r (get_uint32 ib) (\<lambda>(pflags, ib).
     bind_r (get_attrs ib) (\<lambda>(attrs, ib).
       let flags' = pflags_to_unix (fcntl_tab h) pflags;
           mode = (if flags attrs AND SSH_FILEXFER_ATTR_PERMISSIONS \<noteq> 0 then permissions attrs
                   else DEFAULT_FILE_PERM);
           ((fd', e), w) = os_open h (cstr sz_filename) flags' mode (world s)
       in if fd' < 0
          then reply (put_status id' (errno_to_sftp (errno_tab h) e)) (s\<lparr>world := w\<rparr>)
          else
            let (handle, hs) = handle_alloc_file fd' (handles s) in
            if handle = 0
            then let (_, w) = os_close h fd' w
                 in reply (put_status id' SSH_FX_FAILURE) (s\<lparr>world := w\<rparr>)
            else reply (put_handle id' handle) (s\<lparr>handles := hs, world := w\<rparr>)))))"

definition sftp_close :: "'w host \<Rightarrow> u8 list \<Rightarrow> 'w state \<Rightarrow> abort + 'w state" where
  "sftp_close h ib s =
     bind_r (get_uint32 ib) (\<lambda>(id', ib).
     bind_r (get_handle (handles s) ib) (\<lambda>(p_handle, ib).
       case p_handle of
         None \<Rightarrow> reply (put_status id' SSH_FX_FAILURE) s
       | Some i \<Rightarrow>
           let hnd = handles s ! i;
               (status, w) =
                 (if use hnd = HANDLE_FILE
                  then let ((r, e), w) = os_close h (fd hnd) (world s)
                       in (if r = - 1 then errno_to_sftp (errno_tab h) e else SSH_FX_OK, w)
                  else if use hnd = HANDLE_DIR
                  then let ((r, e), w) = os_closedir h (p_dir hnd) (world s)
                       in (if r = - 1 then errno_to_sftp (errno_tab h) e else SSH_FX_OK, w)
                  else (SSH_FX_OK, world s))
           in reply (put_status id' status)
                (s\<lparr>handles := (handles s)[i := hnd\<lparr>use := HANDLE_FREE\<rparr>], world := w\<rparr>)))"

text \<open>
  In \<open>sftp_read\<close> the host's \<open>read\<close> stores its bytes in the output buffer, nine bytes after
  the write pointer and never more than the length it was given; the header of the DATA
  response is written in front of them afterwards.
\<close>

definition sftp_read :: "'w host \<Rightarrow> u8 list \<Rightarrow> 'w state \<Rightarrow> abort + 'w state" where
  "sftp_read h ib s =
     (let hdr_size = 1 + 4 + 4 in
      bind_r (get_uint32 ib) (\<lambda>(id', ib).
      bind_r (get_handle (handles s) ib) (\<lambda>(p_handle, ib).
      bind_r (get_uint64 ib) (\<lambda>(offset, ib).
      bind_r (get_uint32 ib) (\<lambda>(len, ib).
        let max_len = count (obuff s) - hdr_size;
            len = (if len > max_len then max_len else len)
        in case p_handle of
             None \<Rightarrow> reply (put_status id' SSH_FX_FAILURE) s
           | Some i \<Rightarrow>
               if use (handles s ! i) \<noteq> HANDLE_FILE then reply (put_status id' SSH_FX_FAILURE) s
               else
                 let ((r, e), w) = os_lseek h (fd (handles s ! i)) offset (world s) in
                 if r < 0
                 then reply (put_status id' (errno_to_sftp (errno_tab h) e)) (s\<lparr>world := w\<rparr>)
                 else
                   let ((ret, e, bytes), w) = os_read h (fd (handles s ! i)) len w;
                       ob = (obuff s)\<lparr>data := memcpy (data (obuff s))
                               (p_data (obuff s) + unat hdr_size) (take (unat len) bytes)\<rparr>;
                       s = s\<lparr>obuff := ob, world := w\<rparr>
                   in if ret < 0 then reply (put_status id' (errno_to_sftp (errno_tab h) e)) s
                      else if ret = 0 then reply (put_status id' SSH_FX_EOF) s
                      else if \<not> (word_of_int ret :: u32) \<le> len then Inl AssertFail
                      else reply (\<lambda>ob.
                             bind_r (put_byte SSH_FXP_DATA ob) (\<lambda>ob.
                             bind_r (put_uint32 id' ob) (\<lambda>ob.
                             bind_r (put_uint32 (word_of_int ret) ob) (\<lambda>ob.
                               Inr (ob\<lparr>count := count ob - word_of_int ret,
                                       p_data := p_data ob + nat ret\<rparr>))))) s)))))"

definition sftp_write :: "'w host \<Rightarrow> u8 list \<Rightarrow> 'w state \<Rightarrow> abort + 'w state" where
  "sftp_write h ib s =
     bind_r (get_uint32 ib) (\<lambda>(id', ib).
     bind_r (get_handle (handles s) ib) (\<lambda>(p_handle, ib).
     bind_r (get_uint64 ib) (\<lambda>(offset, ib).
     bind_r (get_data ib) (\<lambda>(p_data', data_len, ib).
       case p_handle of
         None \<Rightarrow> reply (put_status id' SSH_FX_FAILURE) s
       | Some i \<Rightarrow>
           if use (handles s ! i) \<noteq> HANDLE_FILE then reply (put_status id' SSH_FX_FAILURE) s
           else
             let ((r, e), w) = os_lseek h (fd (handles s ! i)) offset (world s) in
             if r < 0
             then reply (put_status id' (errno_to_sftp (errno_tab h) e)) (s\<lparr>world := w\<rparr>)
             else
               let ((ret, e), w) = os_write h (fd (handles s ! i)) p_data' w;
                   status = (if ret < 0 then errno_to_sftp (errno_tab h) e
                             else if (word_of_int ret :: u32) = data_len then SSH_FX_OK
                             else SSH_FX_FAILURE)
               in reply (put_status id' status) (s\<lparr>world := w\<rparr>)))))"

definition do_stat :: "bool \<Rightarrow> 'w host \<Rightarrow> u8 list \<Rightarrow> 'w state \<Rightarrow> abort + 'w state" where
  "do_stat follow_symlinks h ib s =
     bind_r (get_uint32 ib) (\<lambda>(id', ib).
     bind_r (get_string ib) (\<lambda>(sz_path, _, ib).
       let ((ret, e, st), w) =
             (if follow_symlinks then os_stat h (cstr sz_path) (world s)
              else os_lstat h (cstr sz_path) (world s))
       in if ret < 0 then reply (put_status id' (errno_to_sftp (errno_tab h) e)) (s\<lparr>world := w\<rparr>)
          else reply (put_stat_attrs id' st) (s\<lparr>world := w\<rparr>)))"

definition sftp_stat :: "'w host \<Rightarrow> u8 list \<Rightarrow> 'w state \<Rightarrow> abort + 'w state" where
  "sftp_stat h ib s = do_stat True h ib s"

definition sftp_lstat :: "'w host \<Rightarrow> u8 list \<Rightarrow> 'w state \<Rightarrow> abort + 'w state" where
  "sftp_lstat h ib s = do_stat False h ib s"

definition sftp_fstat :: "'w host \<Rightarrow> u8 list \<Rightarrow> 'w state \<Rightarrow> abort + 'w state" where
  "sftp_fstat h ib s =
     bind_r (get_uint32 ib) (\<lambda>(id', ib).
     bind_r (get_handle (handles s) ib) (\<lambda>(p_handle, ib).
       case p_handle of
         None \<Rightarrow> reply (put_status id' SSH_FX_FAILURE) s
       | Some i \<Rightarrow>
           if use (handles s ! i) \<noteq> HANDLE_FILE then reply (put_status id' SSH_FX_FAILURE) s
           else
             let ((r, e, st), w) = os_fstat h (fd (handles s ! i)) (world s) in
             if r = 0 then reply (put_stat_attrs id' st) (s\<lparr>world := w\<rparr>)
             else reply (put_status id' (errno_to_sftp (errno_tab h) e)) (s\<lparr>world := w\<rparr>)))"

definition sftp_setstat :: "'w host \<Rightarrow> u8 list \<Rightarrow> 'w state \<Rightarrow> abort + 'w state" where
  "sftp_setstat h ib s =
     bind_r (get_uint32 ib) (\<lambda>(id', ib).
     bind_r (get_string ib) (\<lambda>(sz_path, _, ib).
     bind_r (get_attrs ib) (\<lambda>(attr, ib).
       let ((r1, e1), w) =
             (if flags attr AND SSH_FILEXFER_ATTR_PERMISSIONS \<noteq> 0
              then os_chmod h (cstr sz_path) (permissions attr AND PERM_MASK) (world s)
              else ((0, 0), world s))
       in if r1 < 0 then reply (put_status id' (errno_to_sftp (errno_tab h) e1)) (s\<lparr>world := w\<rparr>)
          else
            let ((r2, e2), w) =
                  (if flags attr AND SSH_FILEXFER_ATTR_ACMODTIME \<noteq> 0
                   then os_utimes h (cstr sz_path) (atime attr) (mtime attr) w
                   else ((0, 0), w))
            in if r2 < 0
               then reply (put_status id' (errno_to_sftp (errno_tab h) e2)) (s\<lparr>world := w\<rparr>)
               else
                 let ((r3, e3), w) =
                       (if flags attr AND SSH_FILEXFER_ATTR_UIDGID \<noteq> 0
                        then os_chown h (cstr sz_path) (uid attr) (gid attr) w
                        else ((0, 0), w))
                 in if r3 < 0
                    then reply (put_status id' (errno_to_sftp (errno_tab h) e3)) (s\<lparr>world := w\<rparr>)
                    else reply (put_status id' SSH_FX_OK) (s\<lparr>world := w\<rparr>))))"

definition sftp_fsetstat :: "'w host \<Rightarrow> u8 list \<Rightarrow> 'w state \<Rightarrow> abort + 'w state" where
  "sftp_fsetstat h ib s =
     bind_r (get_uint32 ib) (\<lambda>(id', ib).
     bind_r (get_handle (handles s) ib) (\<lambda>(p_handle, ib).
     bind_r (get_attrs ib) (\<lambda>(attr, ib).
       case p_handle of
         None \<Rightarrow> reply (put_status id' SSH_FX_FAILURE) s
       | Some i \<Rightarrow>
           if use (handles s ! i) \<noteq> HANDLE_FILE then reply (put_status id' SSH_FX_FAILURE) s
           else
             let fd' = fd (handles s ! i);
                 ((r1, e1), w) =
                   (if flags attr AND SSH_FILEXFER_ATTR_PERMISSIONS \<noteq> 0
                    then os_fchmod h fd' (permissions attr AND 0x1FF) (world s)
                    else ((0, 0), world s))
             in if r1 < 0
                then reply (put_status id' (errno_to_sftp (errno_tab h) e1)) (s\<lparr>world := w\<rparr>)
                else
                  let ((r2, e2), w) =
                        (if flags attr AND SSH_FILEXFER_ATTR_ACMODTIME \<noteq> 0
                         then os_futimes h fd' (atime attr) (mtime attr) w
                         else ((0, 0), w))
                  in if r2 < 0
                     then reply (put_status id' (errno_to_sftp (errno_tab h) e2)) (s\<lparr>world := w\<rparr>)
                     else
                       let ((r3, e3), w) =
                             (if flags attr AND SSH_FILEXFER_ATTR_UIDGID \<noteq> 0
                              then os_fchown h fd' (uid attr) (gid attr) w
                              else ((0, 0), w))
                       in if r3 < 0
                          then reply (put_status id' (errno_to_sftp (errno_tab h) e3))
                                 (s\<lparr>world := w\<rparr>)
                          else reply (put_status id' SSH_FX_OK) (s\<lparr>world := w\<rparr>))))"

text \<open>
  \<open>sftp_opendir\<close> calls \<open>open(sz_path, O_RDONLY)\<close> without a mode; the model passes 0.
\<close>

definition sftp_opendir :: "'w host \<Rightarrow> u8 list \<Rightarrow> 'w state \<Rightarrow> abort + 'w state" where
  "sftp_opendir h ib s =
     bind_r (get_uint32 ib) (\<lambda>(id', ib).
     bind_r (get_string ib) (\<lambda>(sz_path, _, ib).
       let ((fd', e), w) = os_open h (cstr sz_path) (O_RDONLY (fcntl_tab h)) 0 (world s) in
       if fd' = - 1 then reply (put_status id' (errno_to_sftp (errno_tab h) e)) (s\<lparr>world := w\<rparr>)
       else
         let ((p_dir', e), w) = os_fdopendir h fd' w in
         if p_dir' = 0 then reply (put_status id' (errno_to_sftp (errno_tab h) e)) (s\<lparr>world := w\<rparr>)
         else
           let (handle, hs) = handle_alloc_dir fd' p_dir' (handles s) in
           if handle \<noteq> 0 then reply (put_handle id' handle) (s\<lparr>handles := hs, world := w\<rparr>)
           else reply (put_status id' SSH_FX_FAILURE) (s\<lparr>world := w\<rparr>)))"


subsection \<open>READDIR\<close>

text \<open>
  The loop \<open>do ... while (p_entry)\<close> of \<open>sftp_readdir\<close>. Nothing bounds the number of its
  iterations, so it is a partial function: \<open>None\<close> means that the loop never ends. Its
  arguments are the handle, the number of entries written so far, the output buffer
  and the world; it returns the count, the buffer and the world at the end of the loop.
  The name \<open>d_name\<close> is a C string.
\<close>

partial_function (option) readdir_loop ::
  "'w host \<Rightarrow> fxp_handle_t \<Rightarrow> u32 \<Rightarrow> buff \<Rightarrow> 'w \<Rightarrow> (abort + (u32 \<times> buff \<times> 'w)) option" where
  "readdir_loop h p_handle cnt ob w =
     (case os_telldir h (p_dir p_handle) w of
        Inl a \<Rightarrow> Some (Inl a)
      | Inr (dir_posn, w) \<Rightarrow>
          (case os_readdir h (p_dir p_handle) w of
             Inl a \<Rightarrow> Some (Inl a)
           | Inr (p_entry, w) \<Rightarrow>
               (case p_entry of
                  None \<Rightarrow> Some (Inr (cnt, ob, w))
                | Some d_name \<Rightarrow>
                    (case os_fstatat h (fd p_handle) d_name w of
                       ((r, e, st), w) \<Rightarrow>
                         if r < 0 then readdir_loop h p_handle cnt ob w
                         else if (strlen d_name + 4) * 2 + MAX_ATTRS_BYTES \<le> unat (count ob)
                         then
                           (case bind_r (put_cstring d_name ob) (\<lambda>ob.
                                 bind_r (put_cstring d_name ob) (put_attrs (stat_to_attr st))) of
                              Inl a \<Rightarrow> Some (Inl a)
                            | Inr ob \<Rightarrow> readdir_loop h p_handle (cnt + 1) ob w)
                         else if cnt > 0
                         then
                           (case os_seekdir h (p_dir p_handle) dir_posn w of
                              Inl a \<Rightarrow> Some (Inl a)
                            | Inr w \<Rightarrow> readdir_loop h p_handle cnt ob w)
                         else readdir_loop h p_handle cnt ob w))))"

definition sftp_readdir :: "'w host \<Rightarrow> u8 list \<Rightarrow> 'w state \<Rightarrow> (abort + 'w state) option" where
  "sftp_readdir h ib s =
     (case bind_r (get_uint32 ib) (\<lambda>(id', ib).
           bind_r (get_handle (handles s) ib) (\<lambda>(p_handle, ib). Inr (id', p_handle))) of
        Inl a \<Rightarrow> Some (Inl a)
      | Inr (id', None) \<Rightarrow> Some (reply (put_status id' SSH_FX_FAILURE) s)
      | Inr (id', Some i) \<Rightarrow>
          (let save1 = buff_save (obuff s) in
           case bind_r (put_byte SSH_FXP_NAME (obuff s)) (put_uint32 id') of
             Inl a \<Rightarrow> Some (Inl a)
           | Inr ob \<Rightarrow>
               (let save2 = buff_save ob in
                case put_uint32 0 ob of
                  Inl a \<Rightarrow> Some (Inl a)
                | Inr ob \<Rightarrow>
                    (case readdir_loop h (handles s ! i) 0 ob (world s) of
                       None \<Rightarrow> None
                     | Some (Inl a) \<Rightarrow> Some (Inl a)
                     | Some (Inr (cnt, ob, w)) \<Rightarrow>
                         if cnt > 0
                         then
                           (let (save2, ob) = buff_swap save2 ob in
                            Some (bind_r (put_uint32 cnt ob) (\<lambda>ob.
                              let (save2, ob) = buff_swap save2 ob
                              in Inr (s\<lparr>obuff := ob, world := w\<rparr>))))
                         else
                           (let (save1, ob) = buff_swap save1 ob in
                            Some (reply (put_status id' SSH_FX_EOF)
                                    (s\<lparr>obuff := ob, world := w\<rparr>)))))))"

subsection \<open>Paths\<close>

text \<open>The STATUS response after a call that returns -1 on failure.\<close>

definition put_result :: "'w host \<Rightarrow> u32 \<Rightarrow> (int \<times> int) \<Rightarrow> buff \<Rightarrow> abort + buff" where
  "put_result h id' res ob =
     (if fst res = - 1 then put_status id' (errno_to_sftp (errno_tab h) (snd res)) ob
      else put_status id' SSH_FX_OK ob)"

definition sftp_remove :: "'w host \<Rightarrow> u8 list \<Rightarrow> 'w state \<Rightarrow> abort + 'w state" where
  "sftp_remove h ib s =
     bind_r (get_uint32 ib) (\<lambda>(id', ib).
     bind_r (get_string ib) (\<lambda>(sz_filename, _, ib).
       let (res, w) = os_remove h (cstr sz_filename) (world s)
       in reply (put_result h id' res) (s\<lparr>world := w\<rparr>)))"

definition sftp_mkdir :: "'w host \<Rightarrow> u8 list \<Rightarrow> 'w state \<Rightarrow> abort + 'w state" where
  "sftp_mkdir h ib s =
     bind_r (get_uint32 ib) (\<lambda>(id', ib).
     bind_r (get_string ib) (\<lambda>(sz_path, _, ib).
     bind_r (get_attrs ib) (\<lambda>(attr, ib).
       let mode = (if flags attr AND SSH_FILEXFER_ATTR_PERMISSIONS \<noteq> 0
                   then permissions attr AND PERM_MASK else DEFAULT_DIR_PERM);
           (res, w) = os_mkdir h (cstr sz_path) mode (world s)
       in reply (put_result h id' res) (s\<lparr>world := w\<rparr>))))"

definition sftp_rmdir :: "'w host \<Rightarrow> u8 list \<Rightarrow> 'w state \<Rightarrow> abort + 'w state" where
  "sftp_rmdir h ib s =
     bind_r (get_uint32 ib) (\<lambda>(id', ib).
     bind_r (get_string ib) (\<lambda>(sz_path, _, ib).
       let (res, w) = os_rmdir h (cstr sz_path) (world s)
       in reply (put_result h id' res) (s\<lparr>world := w\<rparr>)))"

text \<open>
  \<open>sftp_realpath\<close> and \<open>sftp_fsetstat\<close> are the branches compiled under the feature macros
  the file defines (\<open>_XOPEN_SOURCE 700\<close>, \<open>_BSD_SOURCE\<close>).
\<close>

definition sftp_realpath :: "'w host \<Rightarrow> u8 list \<Rightarrow> 'w state \<Rightarrow> abort + 'w state" where
  "sftp_realpath h ib s =
     bind_r (get_uint32 ib) (\<lambda>(id', ib).
     bind_r (get_string ib) (\<lambda>(sz_path, _, ib).
       let ((sz_fullname, e), w) = os_realpath h (cstr sz_path) (world s) in
       case sz_fullname of
         None \<Rightarrow> reply (put_status id' (errno_to_sftp (errno_tab h) e)) (s\<lparr>world := w\<rparr>)
       | Some name \<Rightarrow>
           reply (\<lambda>ob.
             bind_r (put_byte SSH_FXP_NAME ob) (\<lambda>ob.
             bind_r (put_uint32 id' ob) (\<lambda>ob.
             bind_r (put_uint32 1 ob) (\<lambda>ob.
             bind_r (put_cstring name ob) (\<lambda>ob.
             bind_r (put_cstring name ob) (\<lambda>ob.
               put_attrs zero_attrs ob)))))) (s\<lparr>world := w\<rparr>)))"

definition sftp_rename :: "'w host \<Rightarrow> u8 list \<Rightarrow> 'w state \<Rightarrow> abort + 'w state" where
  "sftp_rename h ib s =
     bind_r (get_uint32 ib) (\<lambda>(id', ib).
     bind_r (get_string ib) (\<lambda>(sz_old_path, _, ib).
     bind_r (get_string ib) (\<lambda>(sz_new_path, _, ib).
       let (res, w) = os_rename h (cstr sz_old_path) (cstr sz_new_path) (world s)
       in reply (put_result h id' res) (s\<lparr>world := w\<rparr>))))"

text \<open>
  \<open>sftp_readlink\<close> lets the host store the target in the output buffer, four bytes
  after the write pointer, then reads it there as a C string.
\<close>

definition sftp_readlink :: "'w host \<Rightarrow> u8 list \<Rightarrow> 'w state \<Rightarrow> abort + 'w state" where
  "sftp_readlink h ib s =
     bind_r (get_uint32 ib) (\<lambda>(id', ib).
     bind_r (get_string ib) (\<lambda>(sz_path, _, ib).
       let save = buff_save (obuff s) in
       bind_r (put_byte SSH_FXP_NAME (obuff s)) (\<lambda>ob.
       bind_r (put_uint32 id' ob) (\<lambda>ob.
       bind_r (put_uint32 1 ob) (\<lambda>ob.
         let space = (count ob - 32) div 2 - 4;
             p_target = p_data ob + 4;
             ((len, e, bytes), w) = os_readlink h (cstr sz_path) space (world s);
             ob = ob\<lparr>data := memcpy (data ob) p_target (take (unat space) bytes)\<rparr>
         in if len = - 1
            then let (save, ob) = buff_swap save ob
                 in reply (put_status id' (errno_to_sftp (errno_tab h) e))
                      (s\<lparr>obuff := ob, world := w\<rparr>)
            else
              bind_r (put_uint32 (word_of_int len) ob) (\<lambda>ob.
                let ob = ob\<lparr>count := count ob - word_of_int len, p_data := p_data ob + nat len\<rparr>;
                    ob = ob\<lparr>data := (data ob)(p_target + nat len := 0)\<rparr>;
                    target = cstr (map (data ob) [p_target..<MAX_PACKET])
                in bind_r (put_cstring target ob) (\<lambda>ob.
                   bind_r (put_attrs zero_attrs ob) (\<lambda>ob.
                     Inr (s\<lparr>obuff := ob, world := w\<rparr>)))))))))"

definition sftp_symlink :: "'w host \<Rightarrow> u8 list \<Rightarrow> 'w state \<Rightarrow> abort + 'w state" where
  "sftp_symlink h ib s =
     bind_r (get_uint32 ib) (\<lambda>(id', ib).
     bind_r (get_string ib) (\<lambda>(sz_link_path, _, ib).
     bind_r (get_string ib) (\<lambda>(sz_target_path, _, ib).
       let (res, w) = os_symlink h (cstr sz_target_path) (cstr sz_link_path) (world s)
       in reply (put_result h id' res) (s\<lparr>world := w\<rparr>))))"

section \<open>The dispatcher and the main loop\<close>

definition sftp_in :: "'w host \<Rightarrow> u8 list \<Rightarrow> 'w state \<Rightarrow> (abort + 'w state) option" where
  "sftp_in h ib s =
     (case get_byte ib of
        Inl a \<Rightarrow> Some (Inl a)
      | Inr (opcode, ib) \<Rightarrow>
          if \<not> have_init s
          then (if opcode \<noteq> SSH_FXP_INIT then Some (Inl AssertFail)
                else Some (bind_r (sftp_init ib s) (\<lambda>s. Inr (s\<lparr>have_init := True\<rparr>))))
          else if opcode = SSH_FXP_INIT then Some (Inl ExitFailure)
          else if opcode = SSH_FXP_OPEN then Some (sftp_open h ib s)
          else if opcode = SSH_FXP_CLOSE then Some (sftp_close h ib s)
          else if opcode = SSH_FXP_READ then Some (sftp_read h ib s)
          else if opcode = SSH_FXP_WRITE then Some (sftp_write h ib s)
          else if opcode = SSH_FXP_LSTAT then Some (sftp_lstat h ib s)
          else if opcode = SSH_FXP_FSTAT then Some (sftp_fstat h ib s)
          else if opcode = SSH_FXP_SETSTAT then Some (sftp_setstat h ib s)
          else if opcode = SSH_FXP_FSETSTAT then Some (sftp_fsetstat h ib s)
          else if opcode = SSH_FXP_OPENDIR then Some (sftp_opendir h ib s)
          else if opcode = SSH_FXP_READDIR then sftp_readdir h ib s
          else if opcode = SSH_FXP_REMOVE then Some (sftp_remove h ib s)
          else if opcode = SSH_FXP_MKDIR then Some (sftp_mkdir h ib s)
          else if opcode = SSH_FXP_RMDIR then Some (sftp_rmdir h ib s)
          else if opcode = SSH_FXP_REALPATH then Some (sftp_realpath h ib s)
          else if opcode = SSH_FXP_STAT then Some (sftp_stat h ib s)
          else if opcode = SSH_FXP_RENAME then Some (sftp_rename h ib s)
          else if opcode = SSH_FXP_READLINK then Some (sftp_readlink h ib s)
          else if opcode = SSH_FXP_SYMLINK then Some (sftp_symlink h ib s)
          else Some (bind_r (get_uint32 ib) (\<lambda>(id', ib).
                 reply (put_status id' SSH_FX_OP_UNSUPPORTED) s)))"

text \<open>
  Standard input is the list of the bytes still to come; its end is the end of the
  stream. \<open>read_input\<close> collects \<open>len\<close> bytes, over as many reads as the host needs, and
  exits when the stream ends first.
\<close>

definition read_input :: "nat \<Rightarrow> u8 list \<Rightarrow> abort + (u8 list \<times> u8 list)" where
  "read_input len stdin =
     (if len \<le> length stdin then Inr (take len stdin, drop len stdin) else Inl ExitSuccess)"

text \<open>
  One iteration of the loop of \<open>main\<close>: it reads one packet, handles it and returns the
  bytes written to standard output, the rest of standard input and the state. The result
  is \<open>None\<close> when the handler never returns. Standard output takes every byte; a failing
  \<open>select\<close>, \<open>read\<close> or \<open>write\<close> on the standard streams is not part of the model.
\<close>

definition main_step ::
  "'w host \<Rightarrow> u8 list \<Rightarrow> 'w state \<Rightarrow> (abort + (u8 list \<times> u8 list \<times> 'w state)) option" where
  "main_step h stdin s =
     (case bind_r (read_input 4 stdin) (\<lambda>(ib, stdin).
           bind_r (get_uint32 ib) (\<lambda>(payload_len, _).
             if \<not> unat payload_len \<le> MAX_PACKET then Inl AssertFail
             else
               bind_r (read_input (unat payload_len) stdin) (\<lambda>(ib, stdin).
                 let ob = (obuff s)\<lparr>p_data := 0, count := of_nat MAX_PACKET\<rparr>;
                     save = buff_save ob
                 in bind_r (put_uint32 0 ob) (\<lambda>ob.
                      Inr (payload_len, ib, stdin, save, s\<lparr>obuff := ob\<rparr>))))) of
        Inl a \<Rightarrow> Some (Inl a)
      | Inr (payload_len, ib, stdin, save, s) \<Rightarrow>
          (case (if payload_len > 0 then sftp_in h ib s else Some (Inr s)) of
             None \<Rightarrow> None
           | Some (Inl a) \<Rightarrow> Some (Inl a)
           | Some (Inr s) \<Rightarrow>
               (let packet_len = of_nat MAX_PACKET - count (obuff s);
                    payload_len = packet_len - 4
                in if payload_len > 0
                   then
                     (let (save, ob) = buff_swap save (obuff s) in
                      Some (bind_r (put_uint32 payload_len ob) (\<lambda>ob.
                        Inr (map (data ob) [0..<unat packet_len], stdin, s\<lparr>obuff := ob\<rparr>))))
                   else Some (Inr ([], stdin, s)))))"


section \<open>Notions used to state the properties\<close>

text \<open>
  The bytes that \<open>put_uint32\<close> and \<open>put_uint64\<close> store; the output buffer after a list of
  bytes was appended at the write pointer; the bytes written between two states of the
  buffer; and an output buffer with all of its space left.
\<close>

definition be32 :: "u32 \<Rightarrow> u8 list" where
  "be32 d = [ucast (drop_bit 24 d), ucast (drop_bit 16 d), ucast (drop_bit 8 d), ucast d]"

definition be64 :: "u64 \<Rightarrow> u8 list" where
  "be64 d = be32 (ucast (drop_bit 32 d)) @ be32 (ucast d)"

definition emit :: "u8 list \<Rightarrow> buff \<Rightarrow> buff" where
  "emit bs ob = ob\<lparr>data := memcpy (data ob) (p_data ob) bs,
                   count := count ob - of_nat (length bs), p_data := p_data ob + length bs\<rparr>"

definition written :: "buff \<Rightarrow> buff \<Rightarrow> u8 list" where
  "written ob ob' = map (data ob') [p_data ob..<p_data ob']"

definition empty_obuff :: buff where
  "empty_obuff = \<lparr>count = 34000, p_data = 0, data = (\<lambda>_. 0)\<rparr>"

subsection \<open>Attributes\<close>

text \<open>The serialization of an attribute record, as \<open>put_attrs\<close> lays it out.\<close>

definition attrs_bytes :: "attrs_t \<Rightarrow> u8 list" where
  "attrs_bytes a = be32 (flags a)
     @ (if flags a AND SSH_FILEXFER_ATTR_SIZE \<noteq> 0 then be64 (size a) else [])
     @ (if flags a AND SSH_FILEXFER_ATTR_UIDGID \<noteq> 0 then be32 (uid a) @ be32 (gid a) else [])
     @ (if flags a AND SSH_FILEXFER_ATTR_PERMISSIONS \<noteq> 0 then be32 (permissions a) else [])
     @ (if flags a AND SSH_FILEXFER_ATTR_ACMODTIME \<noteq> 0 then be32 (atime a) @ be32 (mtime a)
        else [])"

text \<open>The record with every field whose flag is clear set to zero.\<close>

definition gated :: "attrs_t \<Rightarrow> attrs_t" where
  "gated a = \<lparr>flags = flags a,
     permissions = (if flags a AND SSH_FILEXFER_ATTR_PERMISSIONS \<noteq> 0 then permissions a else 0),
     size = (if flags a AND SSH_FILEXFER_ATTR_SIZE \<noteq> 0 then size a else 0),
     uid = (if flags a AND SSH_FILEXFER_ATTR_UIDGID \<noteq> 0 then uid a else 0),
     gid = (if flags a AND SSH_FILEXFER_ATTR_UIDGID \<noteq> 0 then gid a else 0),
     atime = (if flags a AND SSH_FILEXFER_ATTR_ACMODTIME \<noteq> 0 then atime a else 0),
     mtime = (if flags a AND SSH_FILEXFER_ATTR_ACMODTIME \<noteq> 0 then mtime a else 0)\<rparr>"

text \<open>Writing a record with \<open>put_attrs\<close> and reading the bytes written with \<open>get_attrs\<close>.\<close>

definition readback :: "attrs_t \<Rightarrow> buff \<Rightarrow> abort + (attrs_t \<times> u8 list)" where
  "readback a ob = bind_r (put_attrs a ob) (\<lambda>ob'. get_attrs (written ob ob'))"

text \<open>
  An attribute record is its flags and the fields whose flag is set; a field whose flag
  is clear carries no meaning. Two structs hold the same record when they agree on the
  flags and on every field whose flag is set. A struct is in the form the server keeps
  its records in when every field whose flag is clear is zero: \<open>get_attrs\<close>,
  \<open>stat_to_attr\<close> and the dummy attributes all start from \<open>memset\<close> to zero.
\<close>

definition same_record :: "attrs_t \<Rightarrow> attrs_t \<Rightarrow> bool" where
  "same_record b a = (gated b = gated a)"

definition clear_fields_zero :: "attrs_t \<Rightarrow> bool" where
  "clear_fields_zero a = (gated a = a)"

text \<open>A fully populated record.\<close>

definition full_attrs :: attrs_t where
  "full_attrs = \<lparr>flags = 0xF, permissions = 0x81A4, size = 5, uid = 1000, gid = 100,
     atime = 1700000000, mtime = 1700000001\<rparr>"

subsection \<open>Handle strings\<close>

text \<open>A string as it travels: its length as a uint32, then its bytes.\<close>

definition wire_string :: "u8 list \<Rightarrow> u8 list" where
  "wire_string s = be32 (of_nat (length s)) @ s"

definition digit_val :: "u8 \<Rightarrow> nat" where
  "digit_val c = unat c - 48"

text \<open>
  The strings of two bytes that \<open>strtoul\<close> converts whole to a value of at most 99, with
  that value: two decimal digits; a white-space character or a plus sign, then a digit;
  a digit, then a NUL byte.
\<close>

fun handle_value :: "u8 list \<Rightarrow> nat option" where
  "handle_value [a, b] =
     (if isdigit a \<and> isdigit b then Some (10 * digit_val a + digit_val b)
      else if (isspace a \<or> a = 0x2B) \<and> isdigit b then Some (digit_val b)
      else if isdigit a \<and> b = 0 then Some (digit_val a)
      else None)"
| "handle_value _ = None"

text \<open>The slot a handle string names: none for value 0 and for a FREE slot.\<close>

definition lookup :: "fxp_handle_t list \<Rightarrow> u8 list \<Rightarrow> nat option" where
  "lookup hs s =
     (case handle_value s of
        None \<Rightarrow> None
      | Some v \<Rightarrow> if v = 0 \<or> use (hs ! (v - 1)) = HANDLE_FREE then None else Some (v - 1))"

text \<open>The checks of \<open>get_handle\<close> on the result of \<open>strtoul\<close>.\<close>

definition accept :: "fxp_handle_t list \<Rightarrow> nat \<times> u8 list \<Rightarrow> nat option" where
  "accept hs r = (let (handle, ep) = r in
         if ep \<noteq> [] then None
         else if handle = 0 then None
         else if handle > MAX_HANDLES then None
         else if use (hs ! (handle - 1)) = HANDLE_FREE then None
         else Some (handle - 1))"

text \<open>The table after one file, descriptor 3, was opened: handle "01".\<close>

definition one_file_table :: "fxp_handle_t list" where
  "one_file_table = init_handles[0 := \<lparr>use = HANDLE_FILE, fd = 3, p_dir = 0\<rparr>]"

subsection \<open>The server at start\<close>

text \<open>
  The state when \<open>main\<close> starts: the static data zero-initialised, no INIT seen, every
  handle free.
\<close>

definition start_state :: "'w \<Rightarrow> 'w state" where
  "start_state w = \<lparr>obuff = \<lparr>count = 0, p_data = 0, data = (\<lambda>_. 0)\<rparr>, have_init = False,
     handles = init_handles, world = w\<rparr>"

subsection \<open>Hosts for concrete runs\<close>

text \<open>
  \<open>null_host\<close> is a host on which every call fails with EBADF and no address is an open
  directory stream. The hosts of the concrete runs below change single calls of it.
\<close>

definition zero_stat :: stat_t where
  "zero_stat = \<lparr>st_mode = 0, st_uid = 0, st_gid = 0, st_size = 0, st_atime = 0, st_mtime = 0\<rparr>"

definition null_host :: "'w host" where
  "null_host = \<lparr>errno_tab = linux_errno, fcntl_tab = linux_fcntl,
     os_open = (\<lambda>p f m w. ((- 1, 9), w)),
     os_close = (\<lambda>fd w. ((- 1, 9), w)),
     os_lseek = (\<lambda>fd off w. ((- 1, 9), w)),
     os_read = (\<lambda>fd len w. ((- 1, 9, []), w)),
     os_write = (\<lambda>fd bs w. ((- 1, 9), w)),
     os_stat = (\<lambda>p w. ((- 1, 9, zero_stat), w)),
     os_lstat = (\<lambda>p w. ((- 1, 9, zero_stat), w)),
     os_fstat = (\<lambda>fd w. ((- 1, 9, zero_stat), w)),
     os_fstatat = (\<lambda>fd p w. ((- 1, 9, zero_stat), w)),
     os_chmod = (\<lambda>p m w. ((- 1, 9), w)),
     os_utimes = (\<lambda>p a m w. ((- 1, 9), w)),
     os_chown = (\<lambda>p u g w. ((- 1, 9), w)),
     os_fchmod = (\<lambda>fd m w. ((- 1, 9), w)),
     os_futimes = (\<lambda>fd a m w. ((- 1, 9), w)),
     os_fchown = (\<lambda>fd u g w. ((- 1, 9), w)),
     os_fdopendir = (\<lambda>fd w. ((0, 9), w)),
     os_closedir = (\<lambda>d w. ((- 1, 9), w)),
     os_telldir = (\<lambda>d w. Inl HostFault),
     os_readdir = (\<lambda>d w. Inl HostFault),
     os_seekdir = (\<lambda>d loc w. Inl HostFault),
     os_remove = (\<lambda>p w. ((- 1, 9), w)),
     os_mkdir = (\<lambda>p m w. ((- 1, 9), w)),
     os_rmdir = (\<lambda>p w. ((- 1, 9), w)),
     os_realpath = (\<lambda>p w. ((None, 9), w)),
     os_rename = (\<lambda>p q w. ((- 1, 9), w)),
     os_readlink = (\<lambda>p n w. ((- 1, 9, []), w)),
     os_symlink = (\<lambda>p q w. ((- 1, 9), w))\<rparr>"

text \<open>
  A host whose world is the list of the \<open>open\<close> calls made so far; every \<open>open\<close>
  succeeds with descriptor 3.
\<close>

definition open_log_host :: "(path \<times> int \<times> u32) list host" where
  "open_log_host = null_host\<lparr>os_open := (\<lambda>p f m w. ((3, 0), w @ [(p, f, m)]))\<rparr>"

text \<open>
  A host whose world is its open directory streams: at an address, the names of the
  directory and the position of the stream. \<open>telldir\<close> returns the position, \<open>readdir\<close>
  returns the name at the position and moves on, \<open>seekdir\<close> sets the position, and
  \<open>fstatat\<close> succeeds for every name.
\<close>

type_synonym dir_world = "nat \<Rightarrow> (path list \<times> nat) option"

definition some_stat :: stat_t where
  "some_stat = \<lparr>st_mode = 0x81A4, st_uid = 1000, st_gid = 100, st_size = 5,
     st_atime = 1700000000, st_mtime = 1700000001\<rparr>"

definition dir_telldir :: "nat \<Rightarrow> dir_world \<Rightarrow> abort + (int \<times> dir_world)" where
  "dir_telldir d w = (case w d of None \<Rightarrow> Inl HostFault | Some (ns, k) \<Rightarrow> Inr (int k, w))"

definition dir_readdir :: "nat \<Rightarrow> dir_world \<Rightarrow> abort + (path option \<times> dir_world)" where
  "dir_readdir d w =
     (case w d of
        None \<Rightarrow> Inl HostFault
      | Some (ns, k) \<Rightarrow>
          if k < length ns then Inr (Some (ns ! k), w(d \<mapsto> (ns, k + 1))) else Inr (None, w))"

definition dir_seekdir :: "nat \<Rightarrow> int \<Rightarrow> dir_world \<Rightarrow> abort + dir_world" where
  "dir_seekdir d loc w =
     (case w d of None \<Rightarrow> Inl HostFault | Some (ns, k) \<Rightarrow> Inr (w(d \<mapsto> (ns, nat loc))))"

definition dir_host :: "dir_world host" where
  "dir_host = null_host\<lparr>os_telldir := dir_telldir, os_readdir := dir_readdir,
     os_seekdir := dir_seekdir, os_fstatat := (\<lambda>fd p w. ((0, 0, some_stat), w))\<rparr>"

text \<open>
  The state in which the main loop hands a request to its handler after INIT: the output
  buffer holds the four bytes reserved for the length.
\<close>

definition ready_state :: "fxp_handle_t list \<Rightarrow> 'w \<Rightarrow> 'w state" where
  "ready_state hs w = \<lparr>obuff = \<lparr>count = 33996, p_data = 4, data = (\<lambda>_. 0)\<rparr>, have_init = True,
     handles = hs, world = w\<rparr>"

subsection \<open>Concrete requests\<close>

text \<open>
  The body of an OPEN request: id 7, filename "/tmp/x", pflags WRITE, CREAT and TRUNC,
  attributes with the PERMISSIONS flag and permissions octal 04755.
\<close>

definition setuid_open_req :: "u8 list" where
  "setuid_open_req = [0, 0, 0, 7] @ [0, 0, 0, 6] @ bytes_of ''/tmp/x'' @ [0, 0, 0, 0x1A]
     @ [0, 0, 0, 4] @ [0, 0, 0x09, 0xED]"

subsection \<open>Response frames\<close>

text \<open>The bytes of a STATUS response and of a DATA response.\<close>

definition status_bytes :: "u32 \<Rightarrow> u32 \<Rightarrow> u8 list" where
  "status_bytes rid code = [SSH_FXP_STATUS] @ be32 rid @ be32 code
     @ wire_string (bytes_of (status_text code)) @ wire_string (bytes_of ''en'')"

definition data_bytes :: "u32 \<Rightarrow> u8 list \<Rightarrow> u8 list" where
  "data_bytes rid bytes = [SSH_FXP_DATA] @ be32 rid @ wire_string bytes"

text \<open>
  A host for reads and writes on the world with one state: every seek succeeds, every
  write returns \<open>wr\<close>, every read returns \<open>rd\<close> and stores \<open>bytes\<close>, and both leave \<open>e\<close> in
  \<open>errno\<close>.
\<close>

definition io_host :: "int \<Rightarrow> int \<Rightarrow> int \<Rightarrow> u8 list \<Rightarrow> unit host" where
  "io_host e wr rd bytes = null_host\<lparr>os_lseek := (\<lambda>fd off w. ((0, 0), w)),
     os_write := (\<lambda>fd bs w. ((wr, e), w)), os_read := (\<lambda>fd len w. ((rd, e, bytes), w))\<rparr>"

text \<open>
  The body of a WRITE request of the five bytes "hello" and of a READ request of 100
  bytes, both with id 7, handle "01" and offset 0.
\<close>

definition hello_write_req :: "u8 list" where
  "hello_write_req = be32 7 @ wire_string [0x30, 0x31] @ be64 0 @ wire_string (bytes_of ''hello'')"

definition read100_req :: "u8 list" where
  "read100_req = be32 7 @ wire_string [0x30, 0x31] @ be64 0 @ be32 100"

subsection \<open>Directories\<close>

text \<open>
  A C string as \<open>put_cstring\<close> writes it, and one entry of a NAME response: the name
  twice and the attributes.
\<close>

definition wire_cstring :: "u8 list \<Rightarrow> u8 list" where
  "wire_cstring s = be32 (of_nat (strlen s)) @ cstr s"

definition entry_bytes :: "path \<Rightarrow> stat_t \<Rightarrow> u8 list" where
  "entry_bytes d_name st = wire_cstring d_name @ wire_cstring d_name @ attrs_bytes (stat_to_attr st)"

text \<open>
  The loop of \<open>sftp_readdir\<close> on \<open>dir_host\<close> is stuck when an entry has been written, the
  stream has a next entry and that entry does not fit in the space left.
\<close>

definition stuck :: "dir_world host \<Rightarrow> fxp_handle_t \<Rightarrow> u32 \<Rightarrow> buff \<Rightarrow> dir_world \<Rightarrow> bool" where
  "stuck h p_handle cnt ob w =
     (h = dir_host \<and> cnt \<noteq> 0
      \<and> (\<exists>ns k. w (p_dir p_handle) = Some (ns, k) \<and> k < length ns
            \<and> unat (count ob) < (strlen (ns ! k) + 4) * 2 + 32))"

text \<open>
  A directory of 62 entries with names of 255 bytes, open as the stream at address 1
  under handle "01"; and a world without any open directory stream.
\<close>

definition long_names :: "path list" where
  "long_names = map (\<lambda>k. replicate 253 0x61 @ sprintf_02lu k) [0..<62]"

definition big_dir :: dir_world where
  "big_dir = (\<lambda>d. if d = 1 then Some (long_names, 0) else None)"

definition one_dir_table :: "fxp_handle_t list" where
  "one_dir_table = init_handles[0 := \<lparr>use = HANDLE_DIR, fd = 3, p_dir = 1\<rparr>]"

definition no_dirs :: dir_world where
  "no_dirs = (\<lambda>d. None)"

text \<open>The frame of the READDIR request with id 7 for handle "01".\<close>

definition readdir_frame :: "u8 list" where
  "readdir_frame = [0, 0, 0, 11, 12, 0, 0, 0, 7, 0, 0, 0, 2, 0x30, 0x31]"


section \<open>Error mapping\<close>

text \<open>
  C5. The errno mapping: 0 gives OK; ENOENT, ENOTDIR, EBADF and ELOOP give NO_SUCH_FILE;
  EPERM, EACCES and EFAULT give PERMISSION_DENIED; ENAMETOOLONG and EINVAL give
  BAD_MESSAGE; every other value gives FAILURE. The host's errno values are distinct and
  nonzero, as the switch statement needs them to be.
\<close>

theorem errno_to_sftp_table:
  assumes "distinct (case_labels t)"
  shows "errno_to_sftp t 0 = SSH_FX_OK
    \<and> (\<forall>e \<in> {ENOENT t, ENOTDIR t, EBADF t, ELOOP t}. errno_to_sftp t e = SSH_FX_NO_SUCH_FILE)
    \<and> (\<forall>e \<in> {EPERM t, EACCES t, EFAULT t}. errno_to_sftp t e = SSH_FX_PERMISSION_DENIED)
    \<and> (\<forall>e \<in> {ENAMETOOLONG t, EINVAL t}. errno_to_sftp t e = SSH_FX_BAD_MESSAGE)
    \<and> (\<forall>e. e \<notin> set (case_labels t) \<longrightarrow> errno_to_sftp t e = SSH_FX_FAILURE)"
proof -
  from assms have nz: "ENOENT t \<noteq> 0" "ENOTDIR t \<noteq> 0" "EBADF t \<noteq> 0" "ELOOP t \<noteq> 0"
    "EPERM t \<noteq> 0" "EACCES t \<noteq> 0" "EFAULT t \<noteq> 0" "ENAMETOOLONG t \<noteq> 0" "EINVAL t \<noteq> 0"
    by (auto simp add: case_labels_def)
  from assms have g3: "EPERM t \<notin> {ENOENT t, ENOTDIR t, EBADF t, ELOOP t}"
    "EACCES t \<notin> {ENOENT t, ENOTDIR t, EBADF t, ELOOP t}"
    "EFAULT t \<notin> {ENOENT t, ENOTDIR t, EBADF t, ELOOP t}"
    by (auto simp add: case_labels_def)
  from assms have g5:
    "ENAMETOOLONG t \<notin> {ENOENT t, ENOTDIR t, EBADF t, ELOOP t, EPERM t, EACCES t, EFAULT t}"
    "EINVAL t \<notin> {ENOENT t, ENOTDIR t, EBADF t, ELOOP t, EPERM t, EACCES t, EFAULT t}"
    by (auto simp add: case_labels_def)
  have c0: "errno_to_sftp t 0 = SSH_FX_OK"
    by (simp add: errno_to_sftp_def)
  have c2: "\<forall>e \<in> {ENOENT t, ENOTDIR t, EBADF t, ELOOP t}. errno_to_sftp t e = SSH_FX_NO_SUCH_FILE"
    using nz by (simp add: errno_to_sftp_def)
  have c3: "\<forall>e \<in> {EPERM t, EACCES t, EFAULT t}. errno_to_sftp t e = SSH_FX_PERMISSION_DENIED"
    using nz g3 by (simp add: errno_to_sftp_def)
  have c5: "\<forall>e \<in> {ENAMETOOLONG t, EINVAL t}. errno_to_sftp t e = SSH_FX_BAD_MESSAGE"
    using nz g5 by (simp add: errno_to_sftp_def)
  have c4: "\<forall>e. e \<notin> set (case_labels t) \<longrightarrow> errno_to_sftp t e = SSH_FX_FAILURE"
    by (simp add: errno_to_sftp_def case_labels_def)
  from c0 c2 c3 c5 c4 show ?thesis by blast
qed

theorem errno_to_sftp_table_witness:
  "distinct (case_labels linux_errno)
   \<and> errno_to_sftp linux_errno 0 = 0
   \<and> errno_to_sftp linux_errno 2 = 2 \<and> errno_to_sftp linux_errno 20 = 2
   \<and> errno_to_sftp linux_errno 9 = 2 \<and> errno_to_sftp linux_errno 40 = 2
   \<and> errno_to_sftp linux_errno 1 = 3 \<and> errno_to_sftp linux_errno 13 = 3
   \<and> errno_to_sftp linux_errno 14 = 3
   \<and> errno_to_sftp linux_errno 36 = 5 \<and> errno_to_sftp linux_errno 22 = 5
   \<and> errno_to_sftp linux_errno 5 = 4 \<and> errno_to_sftp linux_errno 28 = 4
   \<and> errno_to_sftp linux_errno (- 1) = 4"
proof -
  have d: "distinct (case_labels linux_errno)"
    by (simp add: case_labels_def linux_errno_def)
  have m: "5 \<notin> set (case_labels linux_errno)" "28 \<notin> set (case_labels linux_errno)"
    "- 1 \<notin> set (case_labels linux_errno)"
    by (simp_all add: case_labels_def linux_errno_def)
  from errno_to_sftp_table [OF d] m d show ?thesis
    by (simp add: linux_errno_def)
qed

section \<open>Open flags\<close>

lemma and_clear_append:
  fixes p :: u32
  shows "(p AND NOT SSH_FXF_APPEND) AND SSH_FXF_READ = p AND SSH_FXF_READ"
    and "(p AND NOT SSH_FXF_APPEND) AND SSH_FXF_WRITE = p AND SSH_FXF_WRITE"
    and "(p AND NOT SSH_FXF_APPEND) AND SSH_FXF_CREAT = p AND SSH_FXF_CREAT"
    and "(p AND NOT SSH_FXF_APPEND) AND SSH_FXF_TRUNC = p AND SSH_FXF_TRUNC"
    and "(p AND NOT SSH_FXF_APPEND) AND SSH_FXF_EXCL = p AND SSH_FXF_EXCL"
  by (simp_all add: and.assoc)

text \<open>
  C10. The APPEND bit of pflags has no effect on the host open flags: the translation of
  any pflags value equals the translation of the same value with APPEND cleared, and with
  the Linux flag values the O_APPEND bit of the result is never set.
\<close>

theorem pflags_append_ignored:
  "pflags_to_unix h pflags = pflags_to_unix h (pflags AND NOT SSH_FXF_APPEND)
   \<and> pflags_to_unix linux_fcntl pflags AND O_APPEND linux_fcntl = 0"
proof
  show "pflags_to_unix h pflags = pflags_to_unix h (pflags AND NOT SSH_FXF_APPEND)"
    unfolding pflags_to_unix_def by (simp only: and_clear_append)
  show "pflags_to_unix linux_fcntl pflags AND O_APPEND linux_fcntl = 0"
    unfolding pflags_to_unix_def Let_def linux_fcntl_def by simp
qed

section \<open>The wire codec\<close>

lemma u32_of_bytes:
  fixes d :: u32
  shows "push_bit 24 (ucast (ucast (drop_bit 24 d) :: u8))
     OR push_bit 16 (ucast (ucast (drop_bit 16 d) :: u8))
     OR push_bit 8 (ucast (ucast (drop_bit 8 d) :: u8)) OR ucast (ucast d :: u8) = d"
proof (rule bit_word_eqI)
  fix n assume "n < LENGTH(32)"
  then show "bit (push_bit 24 (ucast (ucast (drop_bit 24 d) :: u8))
     OR push_bit 16 (ucast (ucast (drop_bit 16 d) :: u8))
     OR push_bit 8 (ucast (ucast (drop_bit 8 d) :: u8)) OR (ucast (ucast d :: u8) :: u32)) n
     = bit d n"
    by (cases "n < 8"; cases "n < 16"; cases "n < 24") (auto simp add: bit_simps)
qed

lemma u64_of_halves:
  fixes d :: u64
  shows "push_bit 32 (ucast (ucast (drop_bit 32 d) :: u32)) OR ucast (ucast d :: u32) = d"
proof (rule bit_word_eqI)
  fix n assume "n < LENGTH(64)"
  then show "bit (push_bit 32 (ucast (ucast (drop_bit 32 d) :: u32))
     OR (ucast (ucast d :: u32) :: u64)) n = bit d n"
    by (cases "n < 32") (auto simp add: bit_simps)
qed

lemma length_be32 [simp]: "length (be32 d) = 4"
  by (simp add: be32_def)

lemma length_be64 [simp]: "length (be64 d) = 8"
  by (simp add: be64_def)

lemma get_uint32_be32: "get_uint32 (be32 d @ rest) = Inr (d, rest)"
  by (simp add: get_uint32_def be32_def u32_of_bytes)

lemma get_uint64_be64: "get_uint64 (be64 d @ rest) = Inr (d, rest)"
  by (simp add: get_uint64_def be64_def get_uint32_be32 bind_r_def u64_of_halves)

subsection \<open>Every put appends to the output buffer\<close>

lemma memcpy_append: "q = p + length a \<Longrightarrow> memcpy (memcpy m p a) q b = memcpy m p (a @ b)"
  by (rule ext) (auto simp add: memcpy_def nth_append)

lemma memcpy_nil [simp]: "memcpy m p [] = m"
  by (rule ext) (auto simp add: memcpy_def)

lemma emit_nil [simp]: "emit [] ob = ob"
  by (simp add: emit_def)

lemma emit_emit: "emit b (emit a ob) = emit (a @ b) ob"
  by (simp add: emit_def memcpy_append)

lemma p_data_emit [simp]: "p_data (emit bs ob) = p_data ob + length bs"
  by (simp add: emit_def)

lemma count_emit:
  assumes h: "length bs \<le> unat (count ob)"
  shows "unat (count (emit bs ob)) = unat (count ob) - length bs"
proof -
  have "unat (count ob) < 2 ^ 32" using unsigned_less [of "count ob"] by simp
  with h have lt: "length bs < 2 ^ 32" by simp
  hence u: "unat (of_nat (length bs) :: u32) = length bs"
    by (simp add: unat_of_nat)
  with h have "(of_nat (length bs) :: u32) \<le> count ob"
    by (simp add: word_le_nat_alt)
  then show ?thesis using u by (simp add: emit_def unat_sub)
qed

lemma put_byte_emit: "0 < unat (count ob) \<Longrightarrow> put_byte d ob = Inr (emit [d] ob)"
proof -
  assume "0 < unat (count ob)"
  hence c: "count ob > 0" by (simp add: unat_gt_0 word_greater_zero_iff)
  have m: "(data ob)(p_data ob := d) = memcpy (data ob) (p_data ob) [d]"
    by (rule ext) (auto simp add: memcpy_def)
  show ?thesis using c by (simp add: put_byte_def emit_def m)
qed

lemma put_uint32_emit: "4 \<le> unat (count ob) \<Longrightarrow> put_uint32 d ob = Inr (emit (be32 d) ob)"
proof -
  assume "4 \<le> unat (count ob)"
  hence c: "count ob \<ge> 4" by (simp add: word_le_nat_alt)
  have m: "(data ob)(p_data ob := a0, p_data ob + 1 := a1, p_data ob + 2 := a2,
             p_data ob + 3 := a3)
     = memcpy (data ob) (p_data ob) [a0, a1, a2, a3]" for a0 a1 a2 a3
    by (rule ext) (auto simp add: memcpy_def nth_Cons')
  show ?thesis using c by (simp only: put_uint32_def emit_def be32_def m if_True) simp
qed

lemma put_uint64_emit: "8 \<le> unat (count ob) \<Longrightarrow> put_uint64 d ob = Inr (emit (be64 d) ob)"
  by (simp add: put_uint64_def put_uint32_emit bind_r_def count_emit emit_emit be64_def)

lemma put_cstring_emit:
  assumes "4 + strlen s \<le> unat (count ob)"
  shows "put_cstring s ob = Inr (emit (be32 (of_nat (strlen s)) @ cstr s) ob)"
proof -
  let ?ob1 = "emit (be32 (of_nat (strlen s))) ob"
  from assms have p: "put_uint32 (of_nat (strlen s)) ob = Inr ?ob1"
    by (simp add: put_uint32_emit)
  from assms have c: "unat (count ?ob1) = unat (count ob) - 4"
    by (simp add: count_emit)
  have e: "?ob1\<lparr>data := memcpy (data ?ob1) (p_data ?ob1) (cstr s),
               count := count ?ob1 - of_nat (strlen s), p_data := p_data ?ob1 + strlen s\<rparr>
           = emit (cstr s) ?ob1"
    by (simp add: emit_def strlen_def)
  show ?thesis using assms
    by (simp only: put_cstring_def Let_def p bind_r_def sum.case c e emit_emit) simp
qed

lemma written_emit: "written ob (emit bs ob) = bs"
  unfolding written_def emit_def
  by (rule nth_equalityI) (simp_all add: memcpy_def)


section \<open>The attribute codec\<close>

lemma length_attrs_bytes: "length (attrs_bytes a) \<le> MAX_ATTRS_BYTES"
  by (simp add: attrs_bytes_def)

lemma put_attrs_emit:
  assumes "length (attrs_bytes a) \<le> unat (count ob)"
  shows "put_attrs a ob = Inr (emit (attrs_bytes a) ob)"
proof (cases "flags a AND SSH_FILEXFER_ATTR_SIZE \<noteq> 0";
       cases "flags a AND SSH_FILEXFER_ATTR_UIDGID \<noteq> 0";
       cases "flags a AND SSH_FILEXFER_ATTR_PERMISSIONS \<noteq> 0";
       cases "flags a AND SSH_FILEXFER_ATTR_ACMODTIME \<noteq> 0")
qed (use assms in \<open>simp_all add: put_attrs_def attrs_bytes_def put_uint32_emit put_uint64_emit
       bind_r_def count_emit emit_emit\<close>)

lemma get_attrs_bytes:
  assumes "flags a AND SSH_FILEXFER_ATTR_EXTENDED = 0"
  shows "get_attrs (attrs_bytes a @ rest) = Inr (gated a, rest)"
proof (cases "flags a AND SSH_FILEXFER_ATTR_SIZE \<noteq> 0";
       cases "flags a AND SSH_FILEXFER_ATTR_UIDGID \<noteq> 0";
       cases "flags a AND SSH_FILEXFER_ATTR_PERMISSIONS \<noteq> 0";
       cases "flags a AND SSH_FILEXFER_ATTR_ACMODTIME \<noteq> 0")
qed (use assms in \<open>simp_all add: get_attrs_def attrs_bytes_def get_uint32_be32 get_uint64_be64
       bind_r_def gated_def zero_attrs_def\<close>)

lemma readback_gated:
  assumes "flags a AND SSH_FILEXFER_ATTR_EXTENDED = 0" and "MAX_ATTRS_BYTES \<le> unat (count ob)"
  shows "readback a ob = Inr (gated a, [])"
proof -
  from assms(2) have p: "put_attrs a ob = Inr (emit (attrs_bytes a) ob)"
    using length_attrs_bytes [of a] by (simp add: put_attrs_emit)
  show ?thesis
    using get_attrs_bytes [OF assms(1), of "[]"]
    by (simp add: readback_def p bind_r_def written_emit)
qed

lemma gated_idem: "gated (gated a) = gated a"
  by (simp add: gated_def)

lemma clear_fields_zero_stat: "clear_fields_zero (stat_to_attr st)"
  by (simp add: clear_fields_zero_def gated_def stat_to_attr_def zero_attrs_def)

lemma clear_fields_zero_zero: "clear_fields_zero zero_attrs"
  by (simp add: clear_fields_zero_def gated_def zero_attrs_def)

lemma readback_server_records:
  assumes "MAX_ATTRS_BYTES \<le> unat (count ob)"
  shows "readback (stat_to_attr st) ob = Inr (stat_to_attr st, [])"
    and "readback zero_attrs ob = Inr (zero_attrs, [])"
proof -
  have e1: "flags (stat_to_attr st) AND SSH_FILEXFER_ATTR_EXTENDED = 0"
    by (simp add: stat_to_attr_def zero_attrs_def)
  have e2: "flags zero_attrs AND SSH_FILEXFER_ATTR_EXTENDED = 0"
    by (simp add: zero_attrs_def)
  show "readback (stat_to_attr st) ob = Inr (stat_to_attr st, [])"
    using readback_gated [OF e1 assms] clear_fields_zero_stat [of st]
    by (simp add: clear_fields_zero_def)
  show "readback zero_attrs ob = Inr (zero_attrs, [])"
    using readback_gated [OF e2 assms] clear_fields_zero_zero
    by (simp add: clear_fields_zero_def)
qed

text \<open>
  C9. The ATTRS codec is a round trip. For every attribute record whose flags do not
  include EXTENDED, \<open>put_attrs\<close> writes the flags and then, in the fixed order, the fields
  gated by SIZE, UIDGID, PERMISSIONS and ACMODTIME, and reading these bytes back with
  \<open>get_attrs\<close> yields the same record: the same flags and the same value in every field
  whose flag is set. The struct read back is equal to the struct written, field for
  field, whenever the fields whose flag is clear are zero, and so for every struct the
  server serializes: the result of \<open>stat_to_attr\<close> and the zeroed dummy attributes. The
  serialization of any such record, fully populated or not, occupies at most 32 bytes.
\<close>

theorem attrs_roundtrip:
  assumes "flags a AND SSH_FILEXFER_ATTR_EXTENDED = 0" and "MAX_ATTRS_BYTES \<le> unat (count ob)"
  shows "(\<exists>b ob'. put_attrs a ob = Inr ob' \<and> written ob ob' = attrs_bytes a
            \<and> length (written ob ob') \<le> MAX_ATTRS_BYTES
            \<and> get_attrs (written ob ob') = Inr (b, [])
            \<and> same_record b a \<and> (clear_fields_zero a \<longrightarrow> b = a))
    \<and> readback (stat_to_attr st) ob = Inr (stat_to_attr st, [])
    \<and> readback zero_attrs ob = Inr (zero_attrs, [])"
proof -
  from assms(2) have p: "put_attrs a ob = Inr (emit (attrs_bytes a) ob)"
    using length_attrs_bytes [of a] by (simp add: put_attrs_emit)
  have w: "written ob (emit (attrs_bytes a) ob) = attrs_bytes a"
    by (rule written_emit)
  have l: "length (attrs_bytes a) \<le> MAX_ATTRS_BYTES"
    by (rule length_attrs_bytes)
  have g: "get_attrs (attrs_bytes a) = Inr (gated a, [])"
    using get_attrs_bytes [OF assms(1), of "[]"] by simp
  have sr: "same_record (gated a) a"
    by (simp add: same_record_def gated_idem)
  have cz: "clear_fields_zero a \<longrightarrow> gated a = a"
    by (simp add: clear_fields_zero_def)
  have "\<exists>b ob'. put_attrs a ob = Inr ob' \<and> written ob ob' = attrs_bytes a
            \<and> length (written ob ob') \<le> MAX_ATTRS_BYTES
            \<and> get_attrs (written ob ob') = Inr (b, [])
            \<and> same_record b a \<and> (clear_fields_zero a \<longrightarrow> b = a)"
    using p w l g sr cz by (intro exI [of _ "gated a"] exI [of _ "emit (attrs_bytes a) ob"]) simp
  with readback_server_records [OF assms(2)] show ?thesis by blast
qed

theorem attrs_roundtrip_witness:
  "flags full_attrs AND SSH_FILEXFER_ATTR_EXTENDED = 0
   \<and> MAX_ATTRS_BYTES \<le> unat (count empty_obuff)
   \<and> clear_fields_zero full_attrs
   \<and> (\<exists>ob'. put_attrs full_attrs empty_obuff = Inr ob'
          \<and> length (written empty_obuff ob') = 32
          \<and> get_attrs (written empty_obuff ob') = Inr (full_attrs, []))
   \<and> readback (stat_to_attr some_stat) empty_obuff = Inr (stat_to_attr some_stat, [])
   \<and> readback zero_attrs empty_obuff = Inr (zero_attrs, [])"
proof -
  have e: "flags full_attrs AND SSH_FILEXFER_ATTR_EXTENDED = 0"
    by (simp add: full_attrs_def)
  have r: "MAX_ATTRS_BYTES \<le> unat (count empty_obuff)"
    by (simp add: empty_obuff_def)
  have g: "clear_fields_zero full_attrs"
    by (simp add: clear_fields_zero_def gated_def full_attrs_def)
  have l: "length (attrs_bytes full_attrs) = 32"
    by (simp add: attrs_bytes_def full_attrs_def)
  from attrs_roundtrip [OF e r, of some_stat] e r g l show ?thesis by auto
qed


section \<open>Handle decoding\<close>

lemma get_string_wire:
  assumes "length s < 2 ^ 32"
  shows "get_string (wire_string s @ rest) = Inr (s, of_nat (length s), rest)"
  using assms by (simp add: get_string_def wire_string_def get_uint32_be32 bind_r_def unat_of_nat)

lemma digit_facts:
  assumes "isdigit c"
  shows "\<not> isspace c" "c \<noteq> 0" "c \<noteq> 0x2B" "c \<noteq> 0x2D" "digit_val c \<le> 9"
  using assms by (auto simp add: isdigit_def isspace_def digit_val_def word_le_nat_alt)

lemma space_facts:
  assumes "isspace c"
  shows "\<not> isdigit c" "c \<noteq> 0" "c \<noteq> 0x2B" "c \<noteq> 0x2D"
  using assms by (auto simp add: isdigit_def isspace_def word_le_nat_alt)

lemma misc_facts: "\<not> isdigit 0" "\<not> isspace 0" "\<not> isdigit 0x2B" "\<not> isspace 0x2B"
  "\<not> isdigit 0x2D" "\<not> isspace 0x2D"
  by (simp_all add: isdigit_def isspace_def)

lemma cstr2: "cstr [a, b] = (if a = 0 then [] else if b = 0 then [a] else [a, b])"
  by (simp add: cstr_def)

lemma strtoul_nil: "strtoul [] = (0, [])"
  by (simp add: strtoul_def)

lemma strtoul_digit1: "isdigit a \<Longrightarrow> strtoul [a] = (digit_val a, [])"
  using digit_facts [of a] by (simp add: strtoul_def Let_def digit_val_def)

lemma strtoul_nodigit1: "\<not> isdigit a \<Longrightarrow> snd (strtoul [a]) = [a]"
  by (simp add: strtoul_def Let_def)

lemma strtoul_digit2:
  "isdigit a \<Longrightarrow> isdigit b \<Longrightarrow> strtoul [a, b] = (10 * digit_val a + digit_val b, [])"
  using digit_facts [of a] digit_facts [of b] by (simp add: strtoul_def Let_def digit_val_def)

lemma strtoul_digit_other:
  "isdigit a \<Longrightarrow> \<not> isdigit b \<Longrightarrow> snd (strtoul [a, b]) = [b]"
  using digit_facts [of a] by (simp add: strtoul_def Let_def)

lemma strtoul_space_digit:
  "isspace a \<Longrightarrow> isdigit b \<Longrightarrow> strtoul [a, b] = (digit_val b, [])"
  using digit_facts [of b] space_facts [of a] by (simp add: strtoul_def Let_def digit_val_def)

lemma strtoul_plus_digit:
  "isdigit b \<Longrightarrow> strtoul [0x2B, b] = (digit_val b, [])"
  using digit_facts [of b] misc_facts by (simp add: strtoul_def Let_def digit_val_def)

lemma strtoul_minus_digit:
  "isdigit b \<Longrightarrow> strtoul [0x2D, b] = ((2 ^ 64 - digit_val b) mod 2 ^ 64, [])"
  using digit_facts [of b] misc_facts by (simp add: strtoul_def Let_def digit_val_def)

lemma strtoul_none:
  "\<not> isdigit a \<Longrightarrow> \<not> isdigit b \<Longrightarrow> snd (strtoul [a, b]) = [a, b]"
  by (simp add: strtoul_def Let_def)

lemma strtoul_other_digit:
  "\<not> isdigit a \<Longrightarrow> \<not> isspace a \<Longrightarrow> a \<noteq> 0x2B \<Longrightarrow> a \<noteq> 0x2D \<Longrightarrow> snd (strtoul [a, b]) = [a, b]"
  by (simp add: strtoul_def Let_def)

lemma handle_value_len: "length s \<noteq> 2 \<Longrightarrow> handle_value s = None"
  by (cases s rule: handle_value.cases) simp_all

lemma accept_snd: "snd r \<noteq> [] \<Longrightarrow> accept hs r = None"
  by (cases r) (simp add: accept_def)

lemma accept_two: "accept hs (strtoul (cstr [a, b])) = lookup hs [a, b]"
proof (cases "a = 0")
  case True
  then show ?thesis
    using misc_facts by (simp add: cstr2 strtoul_nil accept_def lookup_def)
next
  case a0: False
  show ?thesis
  proof (cases "isdigit a")
    case da: True
    show ?thesis
    proof (cases "b = 0")
      case True
      then show ?thesis
        using a0 da digit_facts [of a] misc_facts
        by (simp add: cstr2 strtoul_digit1 accept_def lookup_def)
    next
      case b0: False
      show ?thesis
      proof (cases "isdigit b")
        case True
        then show ?thesis
          using a0 b0 da digit_facts [of a] digit_facts [of b]
          by (simp add: cstr2 strtoul_digit2 accept_def lookup_def)
      next
        case False
        then show ?thesis
          using a0 b0 da digit_facts [of a] strtoul_digit_other [of a b]
          by (simp add: cstr2 accept_snd lookup_def)
      qed
    qed
  next
    case nda: False
    show ?thesis
    proof (cases "b = 0")
      case True
      then show ?thesis
        using a0 nda misc_facts strtoul_nodigit1 [of a]
        by (simp add: cstr2 accept_snd lookup_def)
    next
      case b0: False
      show ?thesis
      proof (cases "isdigit b")
        case db: True
        consider (sp) "isspace a" | (plus) "a = 0x2B" | (minus) "a = 0x2D"
          | (other) "\<not> isspace a" "a \<noteq> 0x2B" "a \<noteq> 0x2D" by blast
        then show ?thesis
        proof cases
          case sp
          then show ?thesis
            using a0 b0 nda db digit_facts [of b]
            by (simp add: cstr2 strtoul_space_digit accept_def lookup_def)
        next
          case plus
          then show ?thesis
            using a0 b0 nda db digit_facts [of b]
            by (simp add: cstr2 strtoul_plus_digit accept_def lookup_def)
        next
          case minus
          have "(2 ^ 64 - digit_val b) mod 2 ^ 64 = 0 \<or> (2 ^ 64 - digit_val b) mod 2 ^ 64 > (99::nat)"
            using digit_facts(5) [OF db] by (cases "digit_val b = 0") simp_all
          then show ?thesis
            using minus a0 b0 nda db misc_facts
            by (auto simp add: cstr2 strtoul_minus_digit accept_def lookup_def)
        next
          case other
          then show ?thesis
            using a0 b0 nda db strtoul_other_digit [of a b]
            by (simp add: cstr2 accept_snd lookup_def)
        qed
      next
        case False
        then show ?thesis
          using a0 b0 nda strtoul_none [of a b]
          by (simp add: cstr2 accept_snd lookup_def)
      qed
    qed
  qed
qed

lemma get_handle_lookup:
  assumes "length s < 2 ^ 32"
  shows "get_handle hs (wire_string s @ rest) = Inr (lookup hs s, rest)"
proof (cases "length s = 2")
  case True
  then obtain a b where s: "s = [a, b]"
    by (cases s; cases "tl s") auto
  have "get_handle hs (wire_string s @ rest) = Inr (accept hs (strtoul (cstr s)), rest)"
    using get_string_wire [OF assms, of rest] True
    by (simp add: get_handle_def bind_r_def accept_def Let_def split: prod.splits)
  then show ?thesis by (simp add: s accept_two)
next
  case False
  have "(of_nat (length s) :: u32) \<noteq> 2"
  proof
    assume "(of_nat (length s) :: u32) = 2"
    hence "unat (of_nat (length s) :: u32) = 2" by simp
    with assms False show False by (simp add: unat_of_nat)
  qed
  then show ?thesis
    using get_string_wire [OF assms, of rest] False
    by (simp add: get_handle_def bind_r_def lookup_def handle_value_len)
qed

text \<open>
  What holds of the decoding: a string whose length is not 2 is rejected, and a string of
  two decimal digits is rejected exactly when its value is zero or names a FREE slot,
  and maps to the slot at its 1-based value otherwise; that value is at most 99.
\<close>

lemma get_handle_wrong_length:
  assumes "length s < 2 ^ 32" and "length s \<noteq> 2"
  shows "get_handle hs (wire_string s @ rest) = Inr (None, rest)"
  using get_handle_lookup [OF assms(1), of hs rest] assms(2)
  by (simp add: lookup_def handle_value_len)

lemma get_handle_two_digits:
  assumes "isdigit a" and "isdigit b"
  shows "get_handle hs (wire_string [a, b] @ rest)
     = Inr (if 10 * digit_val a + digit_val b = 0
               \<or> use (hs ! (10 * digit_val a + digit_val b - 1)) = HANDLE_FREE then None
            else Some (10 * digit_val a + digit_val b - 1), rest)"
    and "10 * digit_val a + digit_val b \<le> MAX_HANDLES"
proof -
  have l: "length [a, b] < 2 ^ 32" by simp
  show "get_handle hs (wire_string [a, b] @ rest)
     = Inr (if 10 * digit_val a + digit_val b = 0
               \<or> use (hs ! (10 * digit_val a + digit_val b - 1)) = HANDLE_FREE then None
            else Some (10 * digit_val a + digit_val b - 1), rest)"
    using get_handle_lookup [OF l, of hs rest] assms by (simp add: lookup_def)
  show "10 * digit_val a + digit_val b \<le> MAX_HANDLES"
    using digit_facts(5) [OF assms(1)] digit_facts(5) [OF assms(2)] by simp
qed

text \<open>
  C4 fails on the code. \<open>get_handle\<close> leaves the test for non-digit content to \<open>strtoul\<close>
  and to the byte at \<open>*ep\<close>, and \<open>strtoul\<close> skips white space, takes a sign and stops at
  a NUL byte inside the string. With slot 1 holding an open file, the strings of a space
  and the digit 1, of a plus sign and the digit 1, and of the digit 1 and a NUL byte all
  have non-digit content, and each is accepted as handle 1.
\<close>

theorem get_handle_accepts_non_digits:
  "get_handle one_file_table (wire_string [0x20, 0x31]) = Inr (Some 0, [])
   \<and> get_handle one_file_table (wire_string [0x2B, 0x31]) = Inr (Some 0, [])
   \<and> get_handle one_file_table (wire_string [0x31, 0x00]) = Inr (Some 0, [])
   \<and> \<not> list_all isdigit [0x20, 0x31] \<and> \<not> list_all isdigit [0x2B, 0x31]
   \<and> \<not> list_all isdigit [0x31, 0x00]
   \<and> get_handle one_file_table (wire_string [0x30, 0x31]) = Inr (Some 0, [])"
proof -
  have l: "length [0x20, 0x31 :: u8] < 2 ^ 32" "length [0x2B, 0x31 :: u8] < 2 ^ 32"
    "length [0x31, 0x00 :: u8] < 2 ^ 32" "length [0x30, 0x31 :: u8] < 2 ^ 32"
    by simp_all
  show ?thesis
    using get_handle_lookup [OF l(1), of one_file_table "[]"]
      get_handle_lookup [OF l(2), of one_file_table "[]"]
      get_handle_lookup [OF l(3), of one_file_table "[]"]
      get_handle_lookup [OF l(4), of one_file_table "[]"]
    by (simp add: lookup_def isdigit_def isspace_def digit_val_def one_file_table_def
          init_handles_def)
qed


section \<open>The version handshake\<close>

lemma upt9: "[0..<9] = [0, 1, 2, 3, 4, 5, 6, 7, 8]"
  by (simp add: upt_rec)

text \<open>
  C8. When no INIT has been processed and the frame 00 00 00 05 | 01 00 00 00 03 arrives,
  the server writes exactly the frame 00 00 00 05 | 02 00 00 00 03 and is Active
  afterwards.
\<close>

theorem init_version:
  assumes "\<not> have_init s"
  shows "\<exists>s'. main_step h [0, 0, 0, 5, 1, 0, 0, 0, 3] s
      = Some (Inr ([0, 0, 0, 5, 2, 0, 0, 0, 3], [], s')) \<and> have_init s'"
  using assms
  by (simp add: main_step_def read_input_def get_uint32_def bind_r_def
        buff_save_def buff_swap_def put_uint32_def put_byte_def sftp_in_def get_byte_def
        sftp_init_def reply_def upt9)

theorem init_version_witness:
  "\<not> have_init (start_state ())
   \<and> (\<exists>s'. main_step null_host [0, 0, 0, 5, 1, 0, 0, 0, 3] (start_state ())
      = Some (Inr ([0, 0, 0, 5, 2, 0, 0, 0, 3], [], s')) \<and> have_init s')"
proof -
  have n: "\<not> have_init (start_state ())" by (simp add: start_state_def)
  from init_version [OF n, of null_host] n show ?thesis by simp
qed


section \<open>STATUS responses\<close>

lemma cstr_status_text: "cstr (bytes_of (status_text c)) = bytes_of (status_text c)"
  by (simp add: status_text_def bytes_of_def cstr_def)

lemma length_status_text: "length (bytes_of (status_text c)) \<le> 21"
  by (simp add: status_text_def bytes_of_def)

lemma cstr_en: "cstr (bytes_of ''en'') = bytes_of ''en''"
  by (simp add: bytes_of_def cstr_def)

lemma put_status_emit:
  assumes "40 \<le> unat (count ob)"
  shows "put_status rid c ob = Inr (emit (status_bytes rid c) ob)"
proof -
  let ?m = "bytes_of (status_text c)"
  have l: "length ?m \<le> 21" by (rule length_status_text)
  have s1: "strlen ?m = length ?m" by (simp add: strlen_def cstr_status_text)
  have s2: "strlen (bytes_of ''en'') = 2" by (simp add: strlen_def cstr_en) (simp add: bytes_of_def)
  let ?ob1 = "emit [SSH_FXP_STATUS] ob"
  let ?ob2 = "emit ([SSH_FXP_STATUS] @ be32 rid) ob"
  let ?ob3 = "emit ([SSH_FXP_STATUS] @ be32 rid @ be32 c) ob"
  let ?ob4 = "emit ([SSH_FXP_STATUS] @ be32 rid @ be32 c @ wire_string ?m) ob"
  have p1: "put_byte SSH_FXP_STATUS ob = Inr ?ob1"
    using assms by (simp add: put_byte_emit)
  have c1: "unat (count ?ob1) = unat (count ob) - 1"
    using assms by (simp add: count_emit)
  have p2: "put_uint32 rid ?ob1 = Inr ?ob2"
    using assms c1 by (simp add: put_uint32_emit emit_emit)
  have c2: "unat (count ?ob2) = unat (count ob) - 5"
    using assms by (simp add: count_emit)
  have p3: "put_uint32 c ?ob2 = Inr ?ob3"
    using assms c2 by (simp add: put_uint32_emit emit_emit)
  have c3: "unat (count ?ob3) = unat (count ob) - 9"
    using assms by (simp add: count_emit)
  have p4: "put_cstring ?m ?ob3 = Inr ?ob4"
    using assms c3 l s1 by (simp add: put_cstring_emit emit_emit cstr_status_text wire_string_def)
  have c4: "unat (count ?ob4) = unat (count ob) - (13 + length ?m)"
    using assms l by (simp add: count_emit wire_string_def)
  have p5: "put_cstring (bytes_of ''en'') ?ob4 = Inr (emit (status_bytes rid c) ob)"
    using assms c4 l s2
    by (simp add: put_cstring_emit emit_emit cstr_en wire_string_def status_bytes_def)
       (simp add: bytes_of_def)
  show ?thesis
    by (simp only: put_status_def p1 p2 p3 p4 p5 bind_r_def sum.case)
qed

lemma get_data_wire:
  assumes "length s < 2 ^ 32"
  shows "get_data (wire_string s @ rest) = Inr (s, of_nat (length s), rest)"
  using assms by (simp add: get_data_def wire_string_def get_uint32_be32 bind_r_def unat_of_nat)

lemma word_of_int_eq_of_nat:
  assumes "0 \<le> k" "k < 2 ^ 32" "n < 2 ^ 32"
  shows "((word_of_int k :: u32) = of_nat n) = (k = int n)"
proof
  assume "(word_of_int k :: u32) = of_nat n"
  hence "uint (word_of_int k :: u32) = uint (of_nat n :: u32)" by simp
  hence "k mod 2 ^ 32 = int (n mod 2 ^ 32)"
    by (simp add: uint_word_of_int unsigned_of_nat take_bit_eq_mod)
  with assms show "k = int n" by simp
next
  assume "k = int n"
  then show "(word_of_int k :: u32) = of_nat n" by simp
qed


section \<open>OPEN\<close>

lemma free_slot_first:
  "0 < n \<Longrightarrow> use (hs ! k) = HANDLE_FREE \<Longrightarrow> free_slot n k hs = Some k"
  by (cases n) simp_all

lemma sprintf_02lu_nonzero: "k < 100 \<Longrightarrow> 0 \<notin> set (sprintf_02lu k)"
proof -
  assume k: "k < 100"
  have "(of_nat m :: u8) \<noteq> 0" if "48 \<le> m" "m < 58" for m
  proof
    assume "(of_nat m :: u8) = 0"
    hence "unat (of_nat m :: u8) = 0" by simp
    with that show False by (simp add: unat_of_nat)
  qed
  from this [of "48 + k div 10"] this [of "48 + k mod 10"] k show ?thesis
    by (auto simp add: sprintf_02lu_def)
qed

lemma free_slot_bound: "free_slot n k hs = Some i \<Longrightarrow> k \<le> i \<and> i < k + n"
proof (induction n arbitrary: k)
  case 0
  then show ?case by simp
next
  case (Suc n)
  show ?case
  proof (cases "use (hs ! k) = HANDLE_FREE")
    case True
    with Suc.prems show ?thesis by simp
  next
    case False
    with Suc.prems have "free_slot n (Suc k) hs = Some i" by simp
    from Suc.IH [OF this] show ?thesis by simp
  qed
qed

lemma length_sprintf_02lu: "h < 100 \<Longrightarrow> strlen (sprintf_02lu h) = 2"
  using sprintf_02lu_nonzero [of h]
  by (simp add: strlen_def cstr_def sprintf_02lu_def)

lemma put_handle_ok:
  assumes "0 < handle" and "handle \<le> MAX_HANDLES" and "40 \<le> unat (count ob)"
  shows "\<exists>ob'. put_handle rid handle ob = Inr ob'"
proof -
  have l: "strlen (sprintf_02lu handle) = 2" using assms by (simp add: length_sprintf_02lu)
  have p1: "put_byte SSH_FXP_HANDLE ob = Inr (emit [SSH_FXP_HANDLE] ob)"
    using assms by (simp add: put_byte_emit)
  have c1: "unat (count (emit [SSH_FXP_HANDLE] ob)) = unat (count ob) - 1"
    using assms by (simp add: count_emit)
  have p2: "put_uint32 rid (emit [SSH_FXP_HANDLE] ob) = Inr (emit (SSH_FXP_HANDLE # be32 rid) ob)"
    using assms c1 by (simp add: put_uint32_emit emit_emit)
  have c2: "unat (count (emit (SSH_FXP_HANDLE # be32 rid) ob)) = unat (count ob) - 5"
    using assms by (simp add: count_emit)
  have "\<exists>ob'. put_cstring (sprintf_02lu handle) (emit (SSH_FXP_HANDLE # be32 rid) ob) = Inr ob'"
    using assms c2 l by (simp add: put_cstring_emit)
  then show ?thesis
    using assms by (simp add: put_handle_def p1 p2 bind_r_def)
qed

text \<open>
  What \<open>sftp_open\<close> hands to the host, on the host that logs its \<open>open\<close> calls: the
  filename as a C string, the translated flags, and as mode the permissions of the
  request as they arrive when the PERMISSIONS flag is set, octal 0666 otherwise.
\<close>

lemma sftp_open_mode:
  assumes fl: "length fn < 2 ^ 32" and ext: "flags a AND SSH_FILEXFER_ATTR_EXTENDED = 0"
    and room: "40 \<le> unat (count (obuff s))"
  shows "map_sum (\<lambda>a. a) world
           (sftp_open open_log_host (be32 rid @ wire_string fn @ be32 pflags @ attrs_bytes a) s)
         = Inr (world s @ [(cstr fn, pflags_to_unix linux_fcntl pflags,
              if flags a AND SSH_FILEXFER_ATTR_PERMISSIONS \<noteq> 0 then permissions a
              else DEFAULT_FILE_PERM)])"
proof -
  let ?w = "world s @ [(cstr fn, pflags_to_unix linux_fcntl pflags,
              if flags a AND SSH_FILEXFER_ATTR_PERMISSIONS \<noteq> 0 then permissions a
              else DEFAULT_FILE_PERM)]"
  have ga: "get_attrs (attrs_bytes a) = Inr (gated a, [])"
    using get_attrs_bytes [OF ext, of "[]"] by simp
  have h: "fcntl_tab open_log_host = linux_fcntl" "errno_tab open_log_host = linux_errno"
    "os_open open_log_host = (\<lambda>p f m w. ((3, 0), w @ [(p, f, m)]))"
    "os_close open_log_host = (\<lambda>fd w. ((- 1, 9), w))"
    by (simp_all add: open_log_host_def null_host_def)
  show ?thesis
  proof (cases "free_slot MAX_HANDLES 0 (handles s)")
    case None
    then show ?thesis
      using room
      by (simp add: sftp_open_def get_uint32_be32 get_string_wire [OF fl] bind_r_def ga h
            gated_def handle_alloc_file_def reply_def put_status_emit)
  next
    case (Some i)
    from free_slot_bound [OF Some] have i: "0 < i + 1" "i + 1 \<le> MAX_HANDLES" by simp_all
    from put_handle_ok [OF i, of "obuff s" rid] room obtain ob' where
      "put_handle rid (i + 1) (obuff s) = Inr ob'" by blast
    then show ?thesis
      using Some
      by (simp add: sftp_open_def get_uint32_be32 get_string_wire [OF fl] bind_r_def ga h
            gated_def handle_alloc_file_def reply_def)
  qed
qed

text \<open>
  C1 fails on the code. \<open>sftp_open\<close> passes \<open>attrs.permissions\<close> to \<open>open\<close> as it
  arrives: for the request with permissions octal 04755 the host is called with mode
  04755 (0x9ED), where the mask \<open>PERM_MASK\<close> would give 0755 (0x1ED). The flags 0x241 are
  O_WRONLY, O_CREAT and O_TRUNC of Linux.
\<close>

theorem sftp_open_mode_not_masked:
  "map_sum (\<lambda>a. a) world
     (sftp_open open_log_host setuid_open_req (ready_state init_handles []))
     = Inr [(bytes_of ''/tmp/x'', 0x241, 0x9ED)]
   \<and> (0x9ED :: u32) AND PERM_MASK = 0x1ED"
  by (simp add: sftp_open_def setuid_open_req_def bytes_of_def get_uint32_def get_string_def
        bind_r_def get_attrs_def zero_attrs_def cstr_def pflags_to_unix_def open_log_host_def
        null_host_def linux_fcntl_def ready_state_def handle_alloc_file_def free_slot_first
        init_handles_def reply_def put_handle_def put_byte_def put_uint32_def put_cstring_def
        strlen_def sprintf_02lu_def)


section \<open>WRITE\<close>

text \<open>
  C7. A WRITE request on a valid FILE handle, the seek having succeeded: when the host
  write returns an error the response is STATUS with the mapped errno; when it returns
  the length of the request's data the response is STATUS(OK); when it returns less
  without an error the response is STATUS(FAILURE). The host's write never returns more
  than it was given.
\<close>

theorem sftp_write_status:
  fixes h :: "'w host"
  assumes hl: "length hstr < 2 ^ 32" and dl: "length dat < 2 ^ 32"
    and hv: "lookup (handles s) hstr = Some i" and hu: "use (handles s ! i) = HANDLE_FILE"
    and room: "40 \<le> unat (count (obuff s))"
    and seek: "os_lseek h (fd (handles s ! i)) off (world s) = ((r, e1), w1)" and r0: "0 \<le> r"
    and wr: "os_write h (fd (handles s ! i)) dat w1 = ((ret, e2), w2)"
    and short: "ret \<le> int (length dat)"
  shows "sftp_write h (be32 rid @ wire_string hstr @ be64 off @ wire_string dat @ rest) s
     = Inr (s\<lparr>obuff := emit (status_bytes rid
              (if ret < 0 then errno_to_sftp (errno_tab h) e2
               else if ret = int (length dat) then SSH_FX_OK else SSH_FX_FAILURE)) (obuff s),
            world := w2\<rparr>)"
proof -
  have eq: "0 \<le> ret \<Longrightarrow> ((word_of_int ret :: u32) = of_nat (length dat)) = (ret = int (length dat))"
    using short dl by (intro word_of_int_eq_of_nat) simp_all
  show ?thesis
    using r0 eq
    by (simp add: sftp_write_def get_uint32_be32 get_handle_lookup [OF hl] get_uint64_be64
          get_data_wire [OF dl] bind_r_def hv hu seek wr reply_def put_status_emit room)
qed

lemma write_witness_facts:
  "length [0x30, 0x31 :: u8] < 2 ^ 32"
  "length (bytes_of ''hello'') < 2 ^ 32"
  "lookup (handles (ready_state one_file_table ())) [0x30, 0x31] = Some 0"
  "use (handles (ready_state one_file_table ()) ! 0) = HANDLE_FILE"
  "40 \<le> unat (count (obuff (ready_state one_file_table ())))"
  "os_lseek (io_host e wr rd bs) (fd (handles (ready_state one_file_table ()) ! 0)) 0
     (world (ready_state one_file_table ())) = ((0, 0), ())"
  "os_write (io_host e wr rd bs) (fd (handles (ready_state one_file_table ()) ! 0))
     (bytes_of ''hello'') () = ((wr, e), ())"
  "os_read (io_host e wr rd bs) (fd (handles (ready_state one_file_table ()) ! 0))
     (min 100 (count (obuff (ready_state one_file_table ())) - 9)) () = ((rd, e, bs), ())"
  by (simp_all add: bytes_of_def lookup_def isdigit_def digit_val_def ready_state_def
        one_file_table_def init_handles_def io_host_def)

theorem sftp_write_status_witness:
  "sftp_write (io_host 0 2 0 []) hello_write_req (ready_state one_file_table ())
     = Inr ((ready_state one_file_table ())
          \<lparr>obuff := emit (status_bytes 7 SSH_FX_FAILURE) (obuff (ready_state one_file_table ())),
           world := ()\<rparr>)
   \<and> sftp_write (io_host 0 5 0 []) hello_write_req (ready_state one_file_table ())
     = Inr ((ready_state one_file_table ())
          \<lparr>obuff := emit (status_bytes 7 SSH_FX_OK) (obuff (ready_state one_file_table ())),
           world := ()\<rparr>)
   \<and> sftp_write (io_host 13 (- 1) 0 []) hello_write_req (ready_state one_file_table ())
     = Inr ((ready_state one_file_table ())
          \<lparr>obuff := emit (status_bytes 7 SSH_FX_PERMISSION_DENIED)
                     (obuff (ready_state one_file_table ())),
           world := ()\<rparr>)"
proof -
  note f = write_witness_facts
  have le: "2 \<le> int (length (bytes_of ''hello''))" "5 \<le> int (length (bytes_of ''hello''))"
    "- 1 \<le> int (length (bytes_of ''hello''))"
    by (simp_all add: bytes_of_def)
  have en: "errno_tab (io_host 13 (- 1) 0 []) = linux_errno"
    by (simp add: io_host_def null_host_def)
  have pd: "errno_to_sftp linux_errno 13 = SSH_FX_PERMISSION_DENIED"
    by (simp add: errno_to_sftp_def linux_errno_def)
  from sftp_write_status [OF f(1) f(2) f(3) f(4) f(5) f(6) _ f(7) le(1), of 0 0 "[]" 7 "[]"]
    sftp_write_status [OF f(1) f(2) f(3) f(4) f(5) f(6) _ f(7) le(2), of 0 0 "[]" 7 "[]"]
    sftp_write_status [OF f(1) f(2) f(3) f(4) f(5) f(6) _ f(7) le(3), of 13 0 "[]" 7 "[]"]
  show ?thesis by (simp add: hello_write_req_def bytes_of_def en pd)
qed


section \<open>READ\<close>

lemma memcpy_prepend:
  "q = p + length a \<Longrightarrow> memcpy (memcpy m q b) p a = memcpy m p (a @ b)"
  by (rule ext) (auto simp add: memcpy_def nth_append)

lemma read_data_emit:
  assumes room: "9 + length bytes \<le> unat (count ob)" and pos: "0 < ret"
    and len: "length bytes = nat ret"
  shows "bind_r (put_byte SSH_FXP_DATA (ob\<lparr>data := memcpy (data ob) (p_data ob + 9) bytes\<rparr>)) (\<lambda>ob.
         bind_r (put_uint32 rid ob) (\<lambda>ob.
         bind_r (put_uint32 (word_of_int ret) ob) (\<lambda>ob.
           Inr (ob\<lparr>count := count ob - word_of_int ret, p_data := p_data ob + nat ret\<rparr>))))
       = Inr (emit (data_bytes rid bytes) ob)"
proof -
  let ?ob0 = "ob\<lparr>data := memcpy (data ob) (p_data ob + 9) bytes\<rparr>"
  let ?hdr = "[SSH_FXP_DATA] @ be32 rid @ be32 (word_of_int ret)"
  let ?ob1 = "emit [SSH_FXP_DATA] ?ob0"
  let ?ob2 = "emit ([SSH_FXP_DATA] @ be32 rid) ?ob0"
  let ?ob3 = "emit ?hdr ?ob0"
  have c0: "unat (count ?ob0) = unat (count ob)" by simp
  have p1: "put_byte SSH_FXP_DATA ?ob0 = Inr ?ob1"
    using room by (simp add: put_byte_emit)
  have c1: "unat (count ?ob1) = unat (count ob) - 1"
    using room by (simp add: count_emit)
  have p2: "put_uint32 rid ?ob1 = Inr ?ob2"
    using room c1 by (simp add: put_uint32_emit emit_emit)
  have c2: "unat (count ?ob2) = unat (count ob) - 5"
    using room by (simp add: count_emit)
  have p3: "put_uint32 (word_of_int ret) ?ob2 = Inr ?ob3"
    using room c2 by (simp add: put_uint32_emit emit_emit)
  have w: "(word_of_int ret :: u32) = of_nat (length bytes)"
    using pos len by simp
  have m: "memcpy (memcpy (data ob) (p_data ob + 9) bytes) (p_data ob) ?hdr
      = memcpy (data ob) (p_data ob) (?hdr @ bytes)"
    by (rule memcpy_prepend) simp
  have e: "?ob3\<lparr>count := count ?ob3 - word_of_int ret, p_data := p_data ?ob3 + nat ret\<rparr>
      = emit (data_bytes rid bytes) ob"
    using len m by (simp add: emit_def data_bytes_def wire_string_def w)
  show ?thesis
    by (simp only: p1 p2 p3 bind_r_def sum.case e)
qed

text \<open>
  C6. A READ request on a valid FILE handle, the seek having succeeded: the host read is
  called with the requested length clamped to the space left in the output buffer minus
  9. A negative result gives STATUS with the mapped errno, the result 0 gives
  STATUS(EOF), and a positive result \<open>n\<close> gives the DATA response with the id, the length
  \<open>n\<close> and the \<open>n\<close> bytes read, however \<open>n\<close> compares with the requested length. The
  host's read stores as many bytes as it returns, at most the length it was given.
\<close>

theorem sftp_read_response:
  fixes h :: "'w host"
  assumes hl: "length hstr < 2 ^ 32"
    and hv: "lookup (handles s) hstr = Some i" and hu: "use (handles s ! i) = HANDLE_FILE"
    and room: "40 \<le> unat (count (obuff s))"
    and seek: "os_lseek h (fd (handles s ! i)) off (world s) = ((r, e1), w1)" and r0: "0 \<le> r"
    and rd: "os_read h (fd (handles s ! i)) (min len (count (obuff s) - 9)) w1
               = ((ret, e2, bytes), w2)"
    and stored: "length bytes = nat ret"
    and atmost: "ret \<le> int (unat (min len (count (obuff s) - 9)))"
  shows "sftp_read h (be32 rid @ wire_string hstr @ be64 off @ be32 len @ rest) s
     = Inr (s\<lparr>obuff := emit
              (if ret < 0 then status_bytes rid (errno_to_sftp (errno_tab h) e2)
               else if ret = 0 then status_bytes rid SSH_FX_EOF
               else data_bytes rid bytes) (obuff s),
            world := w2\<rparr>)"
proof -
  let ?len = "min len (count (obuff s) - 9)"
  let ?ob = "obuff s"
  have clamp: "(if len > count ?ob - 9 then count ?ob - 9 else len) = ?len"
    by (auto simp add: min_def)
  have nine: "(9 :: u32) \<le> count ?ob"
    using room by (simp add: word_le_nat_alt)
  have lenle: "unat ?len \<le> unat (count ?ob) - 9"
  proof -
    have "?len \<le> count ?ob - 9" by simp
    hence "unat ?len \<le> unat (count ?ob - 9)" by (simp add: word_le_nat_alt)
    also have "unat (count ?ob - 9) = unat (count ?ob) - 9"
      using nine by (simp add: unat_sub)
    finally show ?thesis .
  qed
  have nl: "nat ret \<le> unat ?len"
    using atmost by linarith
  have tk: "take (unat ?len) bytes = bytes"
    using stored nl by simp
  have parse: "sftp_read h (be32 rid @ wire_string hstr @ be64 off @ be32 len @ rest) s
     = (let ob = ?ob\<lparr>data := memcpy (data ?ob) (p_data ?ob + 9) bytes\<rparr>;
            s' = s\<lparr>obuff := ob, world := w2\<rparr>
        in if ret < 0 then reply (put_status rid (errno_to_sftp (errno_tab h) e2)) s'
           else if ret = 0 then reply (put_status rid SSH_FX_EOF) s'
           else if \<not> (word_of_int ret :: u32) \<le> ?len then Inl AssertFail
           else reply (\<lambda>ob.
                  bind_r (put_byte SSH_FXP_DATA ob) (\<lambda>ob.
                  bind_r (put_uint32 rid ob) (\<lambda>ob.
                  bind_r (put_uint32 (word_of_int ret) ob) (\<lambda>ob.
                    Inr (ob\<lparr>count := count ob - word_of_int ret,
                            p_data := p_data ob + nat ret\<rparr>))))) s')"
    using r0
    by (simp add: sftp_read_def Let_def get_uint32_be32 get_handle_lookup [OF hl]
          get_uint64_be64 bind_r_def hv hu seek clamp rd tk)
  show ?thesis
  proof (cases "ret \<le> 0")
    case True
    with stored have "bytes = []" by simp
    then show ?thesis
      using True room by (auto simp add: parse Let_def reply_def put_status_emit bind_r_def)
  next
    case False
    hence pos: "0 < ret" by simp
    have "unat ?len < 2 ^ 32" using unsigned_less [of ?len] by simp
    with nl have "nat ret < 2 ^ 32" by simp
    moreover have "(word_of_int ret :: u32) = of_nat (nat ret)" using pos by simp
    ultimately have "unat (word_of_int ret :: u32) = nat ret"
      by (simp add: unat_of_nat)
    with nl have le: "(word_of_int ret :: u32) \<le> ?len"
      by (simp add: word_le_nat_alt)
    have rm: "9 + length bytes \<le> unat (count ?ob)"
      using stored nl lenle room by simp
    show ?thesis
      using pos le read_data_emit [OF rm pos stored, of rid]
      by (simp add: parse Let_def reply_def bind_r_def)
  qed
qed

theorem sftp_read_response_witness:
  "sftp_read (io_host 0 0 3 [0x61, 0x62, 0x63]) read100_req (ready_state one_file_table ())
     = Inr ((ready_state one_file_table ())
          \<lparr>obuff := emit (data_bytes 7 [0x61, 0x62, 0x63]) (obuff (ready_state one_file_table ())),
           world := ()\<rparr>)
   \<and> sftp_read (io_host 0 0 0 []) read100_req (ready_state one_file_table ())
     = Inr ((ready_state one_file_table ())
          \<lparr>obuff := emit (status_bytes 7 SSH_FX_EOF) (obuff (ready_state one_file_table ())),
           world := ()\<rparr>)
   \<and> sftp_read (io_host 13 0 (- 1) []) read100_req (ready_state one_file_table ())
     = Inr ((ready_state one_file_table ())
          \<lparr>obuff := emit (status_bytes 7 SSH_FX_PERMISSION_DENIED)
                     (obuff (ready_state one_file_table ())),
           world := ()\<rparr>)"
proof -
  note f = write_witness_facts
  have st: "length [0x61, 0x62, 0x63 :: u8] = nat 3" "length ([] :: u8 list) = nat 0"
    "length ([] :: u8 list) = nat (- 1)"
    by simp_all
  have am: "3 \<le> int (unat (min 100 (count (obuff (ready_state one_file_table ())) - 9)))"
    "0 \<le> int (unat (min 100 (count (obuff (ready_state one_file_table ())) - 9)))"
    "- 1 \<le> int (unat (min 100 (count (obuff (ready_state one_file_table ())) - 9)))"
    by (simp_all add: ready_state_def)
  have en: "errno_tab (io_host 13 0 (- 1) []) = linux_errno"
    by (simp add: io_host_def null_host_def)
  have pd: "errno_to_sftp linux_errno 13 = SSH_FX_PERMISSION_DENIED"
    by (simp add: errno_to_sftp_def linux_errno_def)
  from sftp_read_response [OF f(1) f(3) f(4) f(5) f(6) _ f(8) st(1) am(1), of 0 0 7 "[]"]
    sftp_read_response [OF f(1) f(3) f(4) f(5) f(6) _ f(8) st(2) am(2), of 0 0 7 "[]"]
    sftp_read_response [OF f(1) f(3) f(4) f(5) f(6) _ f(8) st(3) am(3), of 13 0 7 "[]"]
  show ?thesis by (simp add: read100_req_def en pd)
qed


section \<open>READDIR\<close>

lemma dir_host_calls [simp]:
  "os_telldir dir_host = dir_telldir" "os_readdir dir_host = dir_readdir"
  "os_seekdir dir_host = dir_seekdir"
  "os_fstatat dir_host fd' p w = ((0, 0, some_stat), w)"
  by (simp_all add: dir_host_def)

lemma length_stat_attrs: "length (attrs_bytes (stat_to_attr st)) = 32"
  by (simp add: attrs_bytes_def stat_to_attr_def zero_attrs_def)

lemma length_entry_bytes: "length (entry_bytes n st) = (strlen n + 4) * 2 + 32"
  by (simp add: entry_bytes_def wire_cstring_def length_stat_attrs strlen_def)

lemma put_entry_emit:
  assumes "(strlen n + 4) * 2 + 32 \<le> unat (count ob)"
  shows "bind_r (put_cstring n ob) (\<lambda>ob. bind_r (put_cstring n ob) (put_attrs (stat_to_attr st)))
     = Inr (emit (entry_bytes n st) ob)"
proof -
  let ?c = "wire_cstring n"
  have lc: "length ?c = strlen n + 4" by (simp add: wire_cstring_def strlen_def)
  have p1: "put_cstring n ob = Inr (emit ?c ob)"
    using assms by (simp add: put_cstring_emit wire_cstring_def)
  have c1: "unat (count (emit ?c ob)) = unat (count ob) - (strlen n + 4)"
    using assms lc by (simp add: count_emit)
  have p2: "put_cstring n (emit ?c ob) = Inr (emit (?c @ ?c) ob)"
    using assms c1 by (simp add: put_cstring_emit emit_emit wire_cstring_def)
  have c2: "unat (count (emit (?c @ ?c) ob)) = unat (count ob) - 2 * (strlen n + 4)"
    using assms lc by (simp add: count_emit)
  have p3: "put_attrs (stat_to_attr st) (emit (?c @ ?c) ob) = Inr (emit (entry_bytes n st) ob)"
    using assms c2 by (simp add: put_attrs_emit length_stat_attrs emit_emit entry_bytes_def)
  show ?thesis by (simp only: p1 p2 p3 bind_r_def sum.case)
qed

lemma stuck_never_returns:
  assumes "readdir_loop h p_handle cnt ob w = Some y"
  shows "\<not> stuck h p_handle cnt ob w"
proof (rule readdir_loop.raw_induct
         [where P = "\<lambda>h p_handle cnt ob w y. \<not> stuck h p_handle cnt ob w", OF _ assms],
       goal_cases)
  case (1 loop h p_handle cnt ob w y)
  show ?case
  proof
    assume st: "stuck h p_handle cnt ob w"
    then obtain ns k where h: "h = dir_host" and c: "cnt \<noteq> 0"
      and w: "w (p_dir p_handle) = Some (ns, k)" and k: "k < length ns"
      and nofit: "unat (count ob) < (strlen (ns ! k) + 4) * 2 + 32"
      unfolding stuck_def by blast
    from c have c': "0 < cnt" by (simp add: word_greater_zero_iff)
    have rewind: "w(p_dir p_handle \<mapsto> (ns, k)) = w"
      using w by (simp add: map_upd_triv)
    from 1(2) have "loop dir_host p_handle cnt ob w = Some y"
      using w k nofit c'
      by (simp add: h dir_telldir_def dir_readdir_def dir_seekdir_def rewind)
    from 1(1) [OF this] st h show False by blast
  qed
qed

lemma stuck_diverges:
  assumes "w (p_dir p_handle) = Some (ns, k)" and "k < length ns"
    and "unat (count ob) < (strlen (ns ! k) + 4) * 2 + 32" and "cnt \<noteq> 0"
  shows "readdir_loop dir_host p_handle cnt ob w = None"
proof (cases "readdir_loop dir_host p_handle cnt ob w")
  case None
  then show ?thesis .
next
  case (Some y)
  from stuck_never_returns [OF Some] assms show ?thesis unfolding stuck_def by blast
qed

lemma loop_fit_step:
  assumes "w (p_dir p_handle) = Some (ns, k)" and "k < length ns"
    and "(strlen (ns ! k) + 4) * 2 + 32 \<le> unat (count ob)"
  shows "readdir_loop dir_host p_handle cnt ob w
     = readdir_loop dir_host p_handle (cnt + 1) (emit (entry_bytes (ns ! k) some_stat) ob)
         (w(p_dir p_handle \<mapsto> (ns, k + 1)))"
  using assms
  by (subst readdir_loop.simps)
     (simp add: dir_telldir_def dir_readdir_def put_entry_emit)

lemma loop_fit_many:
  assumes "\<forall>n \<in> set ns. strlen n = L"
  shows "w (p_dir p_handle) = Some (ns, k) \<Longrightarrow> k + j \<le> length ns
     \<Longrightarrow> j * ((L + 4) * 2 + 32) \<le> unat (count ob)
     \<Longrightarrow> \<exists>ob'. readdir_loop dir_host p_handle cnt ob w
            = readdir_loop dir_host p_handle (cnt + of_nat j) ob'
                (w(p_dir p_handle \<mapsto> (ns, k + j)))
          \<and> unat (count ob') = unat (count ob) - j * ((L + 4) * 2 + 32)"
proof (induction j arbitrary: w k ob cnt)
  case 0
  then show ?case by (auto simp add: map_upd_triv)
next
  case (Suc j)
  let ?c = "(L + 4) * 2 + 32"
  let ?d = "p_dir p_handle"
  from Suc.prems have k: "k < length ns" by simp
  with assms have len: "strlen (ns ! k) = L" by simp
  from Suc.prems have fit: "(strlen (ns ! k) + 4) * 2 + 32 \<le> unat (count ob)"
    by (simp add: len)
  let ?ob1 = "emit (entry_bytes (ns ! k) some_stat) ob"
  let ?w1 = "w(?d \<mapsto> (ns, k + 1))"
  have step: "readdir_loop dir_host p_handle cnt ob w
     = readdir_loop dir_host p_handle (cnt + 1) ?ob1 ?w1"
    using Suc.prems(1) k fit by (rule loop_fit_step)
  have c1: "unat (count ?ob1) = unat (count ob) - ?c"
    using fit by (simp add: count_emit length_entry_bytes len)
  have w1: "?w1 ?d = Some (ns, k + 1)" by simp
  have k1: "k + 1 + j \<le> length ns" using Suc.prems by simp
  have r1: "j * ?c \<le> unat (count ?ob1)" using Suc.prems c1 by simp
  from Suc.IH [where w = ?w1 and k = "k + 1" and ob = ?ob1 and cnt = "cnt + 1", OF w1 k1 r1] obtain ob' where
    a: "readdir_loop dir_host p_handle (cnt + 1) ?ob1 ?w1
        = readdir_loop dir_host p_handle (cnt + 1 + of_nat j) ob' (?w1(?d \<mapsto> (ns, k + 1 + j)))"
    and b: "unat (count ob') = unat (count ?ob1) - j * ?c" by blast
  have "readdir_loop dir_host p_handle cnt ob w
      = readdir_loop dir_host p_handle (cnt + of_nat (Suc j)) ob' (w(?d \<mapsto> (ns, k + Suc j)))"
  proof -
    have e1: "cnt + 1 + of_nat j = cnt + of_nat (Suc j)" by simp
    have e2: "?w1(?d \<mapsto> (ns, k + 1 + j)) = w(?d \<mapsto> (ns, k + Suc j))" by simp
    show ?thesis by (simp only: step a e1 e2)
  qed
  moreover have "unat (count ob') = unat (count ob) - Suc j * ?c"
    using b c1 by simp
  ultimately show ?case by blast
qed

lemma strlen_long_names: "\<forall>n \<in> set long_names. strlen n = 255"
proof
  fix n assume "n \<in> set long_names"
  then obtain k where k: "k < 62" and n: "n = replicate 253 0x61 @ sprintf_02lu k"
    by (auto simp add: long_names_def)
  from k have "0 \<notin> set (sprintf_02lu k)" by (simp add: sprintf_02lu_nonzero)
  hence "\<forall>c \<in> set n. c \<noteq> 0" by (auto simp add: n)
  hence "cstr n = n" by (simp add: cstr_def)
  then show "strlen n = 255" by (simp add: strlen_def) (simp add: n sprintf_02lu_def)
qed

lemma length_long_names: "length long_names = 62"
  by (simp add: long_names_def)

lemma readdir_loop_end:
  assumes "w (p_dir p_handle) = Some (ns, length ns)"
  shows "readdir_loop dir_host p_handle cnt ob w = Some (Inr (cnt, ob, w))"
  using assms
  by (subst readdir_loop.simps) (simp add: dir_telldir_def dir_readdir_def)

lemma readdir_loop_all_fit:
  assumes "\<forall>n \<in> set ns. strlen n = L" and "w (p_dir p_handle) = Some (ns, 0)"
    and "length ns * ((L + 4) * 2 + 32) \<le> unat (count ob)"
  shows "\<exists>ob'. readdir_loop dir_host p_handle 0 ob w
           = Some (Inr (of_nat (length ns), ob', w(p_dir p_handle \<mapsto> (ns, length ns))))"
proof -
  have k: "0 + length ns \<le> length ns" by simp
  from loop_fit_many [where ns = ns and L = L and w = w and p_handle = p_handle
      and k = 0 and j = "length ns" and ob = ob and cnt = 0, OF assms(1) assms(2) k assms(3)]
  obtain ob' where
    a: "readdir_loop dir_host p_handle 0 ob w
        = readdir_loop dir_host p_handle (0 + of_nat (length ns)) ob'
            (w(p_dir p_handle \<mapsto> (ns, 0 + length ns)))" by blast
  let ?w = "w(p_dir p_handle \<mapsto> (ns, 0 + length ns))"
  have "?w (p_dir p_handle) = Some (ns, length ns)"
    by simp
  from readdir_loop_end [where w = ?w and p_handle = p_handle and ns = ns, OF this] a
  show ?thesis by simp
qed

lemma lookup_01:
  "use (hs ! 0) \<noteq> HANDLE_FREE \<Longrightarrow> lookup hs [0x30, 0x31] = Some 0"
  by (simp add: lookup_def isdigit_def digit_val_def)

lemma name_header_emit:
  assumes "9 \<le> unat (count ob)"
  shows "bind_r (put_byte SSH_FXP_NAME ob) (put_uint32 rid)
           = Inr (emit (SSH_FXP_NAME # be32 rid) ob)"
    and "put_uint32 0 (emit (SSH_FXP_NAME # be32 rid) ob)
           = Inr (emit (SSH_FXP_NAME # be32 rid @ be32 0) ob)"
    and "unat (count (emit (SSH_FXP_NAME # be32 rid @ be32 0) ob)) = unat (count ob) - 9"
proof -
  have p1: "put_byte SSH_FXP_NAME ob = Inr (emit [SSH_FXP_NAME] ob)"
    using assms by (simp add: put_byte_emit)
  have c1: "unat (count (emit [SSH_FXP_NAME] ob)) = unat (count ob) - 1"
    using assms by (simp add: count_emit)
  have p2: "put_uint32 rid (emit [SSH_FXP_NAME] ob) = Inr (emit (SSH_FXP_NAME # be32 rid) ob)"
    using assms c1 by (simp add: put_uint32_emit emit_emit)
  show "bind_r (put_byte SSH_FXP_NAME ob) (put_uint32 rid)
           = Inr (emit (SSH_FXP_NAME # be32 rid) ob)"
    by (simp only: p1 p2 bind_r_def sum.case)
  have c2: "unat (count (emit (SSH_FXP_NAME # be32 rid) ob)) = unat (count ob) - 5"
    using assms by (simp add: count_emit)
  show "put_uint32 0 (emit (SSH_FXP_NAME # be32 rid) ob)
           = Inr (emit (SSH_FXP_NAME # be32 rid @ be32 0) ob)"
    using assms c2 by (simp add: put_uint32_emit emit_emit)
  show "unat (count (emit (SSH_FXP_NAME # be32 rid @ be32 0) ob)) = unat (count ob) - 9"
    using assms by (simp add: count_emit)
qed

lemma big_dir_loop:
  assumes "unat (count ob) = 33987"
  shows "readdir_loop dir_host (one_dir_table ! 0) 0 ob big_dir = None"
proof -
  let ?p = "one_dir_table ! 0"
  have pd: "p_dir ?p = 1" by (simp add: one_dir_table_def init_handles_def)
  have w: "big_dir (p_dir ?p) = Some (long_names, 0)" by (simp add: pd big_dir_def)
  have k: "0 + 61 \<le> length long_names" by (simp add: length_long_names)
  have r: "61 * ((255 + 4) * 2 + 32) \<le> unat (count ob)" using assms by simp
  from loop_fit_many [where ns = long_names and L = 255 and w = big_dir and p_handle = ?p
      and k = 0 and j = 61 and ob = ob and cnt = 0, OF strlen_long_names w k r] obtain ob' where
    a: "readdir_loop dir_host ?p 0 ob big_dir
        = readdir_loop dir_host ?p (0 + of_nat 61) ob' (big_dir(p_dir ?p \<mapsto> (long_names, 0 + 61)))"
    and b: "unat (count ob') = unat (count ob) - 61 * ((255 + 4) * 2 + 32)" by blast
  let ?w = "big_dir(p_dir ?p \<mapsto> (long_names, 0 + 61))"
  have w': "?w (p_dir ?p) = Some (long_names, 61)" by simp
  have k': "61 < length long_names" by (simp add: length_long_names)
  have len: "strlen (long_names ! 61) = 255"
    using strlen_long_names k' by simp
  have nofit: "unat (count ob') < (strlen (long_names ! 61) + 4) * 2 + 32"
    using b assms by (simp add: len)
  have c: "(0 + of_nat 61 :: u32) \<noteq> 0" by simp
  from stuck_diverges [where w = ?w and p_handle = ?p and ns = long_names and k = 61
      and ob = ob' and cnt = "0 + of_nat 61", OF w' k' nofit c] a show ?thesis by simp
qed

lemma readdir_big_dir:
  assumes "handles s = one_dir_table" and "world s = big_dir"
    and "unat (count (obuff s)) = 33996"
  shows "sftp_readdir dir_host (be32 rid @ wire_string [0x30, 0x31] @ rest) s = None"
proof -
  have hl: "length [0x30, 0x31 :: u8] < 2 ^ 32" by simp
  have lk: "lookup one_dir_table [0x30, 0x31] = Some 0"
    by (rule lookup_01) (simp add: one_dir_table_def init_handles_def)
  have room: "9 \<le> unat (count (obuff s))" using assms by simp
  let ?ob = "emit (SSH_FXP_NAME # be32 rid @ be32 0) (obuff s)"
  have c: "unat (count ?ob) = 33987"
    using assms by (simp add: name_header_emit(3) [OF room])
  show ?thesis
    by (simp add: sftp_readdir_def get_uint32_be32 get_handle_lookup [OF hl] bind_r_def assms lk
          name_header_emit(1,2) [OF room, unfolded bind_r_def] big_dir_loop [OF c])
qed

lemma readdir_body: "[0, 0, 0, 7, 0, 0, 0, 2, 0x30, 0x31] = be32 7 @ wire_string [0x30, 0x31] @ []"
  by (simp add: be32_def wire_string_def)

lemma main_step_big_dir:
  "main_step dir_host readdir_frame (ready_state one_dir_table big_dir) = None"
proof -
  let ?s = "(ready_state one_dir_table big_dir)
      \<lparr>obuff := emit (be32 0) ((obuff (ready_state one_dir_table big_dir))
          \<lparr>p_data := 0, count := of_nat MAX_PACKET\<rparr>)\<rparr>"
  have r: "sftp_readdir dir_host (be32 7 @ wire_string [0x30, 0x31] @ []) ?s = None"
    by (rule readdir_big_dir) (simp_all add: ready_state_def count_emit)
  have p: "put_uint32 0 ((obuff (ready_state one_dir_table big_dir))
          \<lparr>p_data := 0, count := of_nat MAX_PACKET\<rparr>)
       = Inr (emit (be32 0) ((obuff (ready_state one_dir_table big_dir))
          \<lparr>p_data := 0, count := of_nat MAX_PACKET\<rparr>))"
    by (rule put_uint32_emit) simp
  have i: "sftp_in dir_host [12, 0, 0, 0, 7, 0, 0, 0, 2, 0x30, 0x31] ?s = None"
    using r by (simp add: sftp_in_def get_byte_def readdir_body ready_state_def)
  show ?thesis
    using p i
    by (simp add: main_step_def readdir_frame_def read_input_def get_uint32_def bind_r_def
          buff_save_def ready_state_def)
qed

text \<open>
  C2 fails on the code. After \<open>seekdir\<close> the loop of \<open>sftp_readdir\<close> does not stop: the
  entry is still there, so the loop reads it again, finds again that it does not fit and
  rewinds again. On a directory of 62 entries with names of 255 bytes, 61 entries of 550
  bytes fill the buffer, the last one does not fit, and the handler never returns: no
  count is patched and no NAME response is sent, and the main loop never writes a frame.
\<close>

theorem readdir_full_buffer_never_returns:
  "sftp_readdir dir_host (be32 7 @ wire_string [0x30, 0x31]) (ready_state one_dir_table big_dir)
     = None
   \<and> main_step dir_host readdir_frame (ready_state one_dir_table big_dir) = None"
  using readdir_big_dir [of "ready_state one_dir_table big_dir" 7 "[]"] main_step_big_dir
  by (simp add: ready_state_def)


section \<open>Missing handles and handles of the wrong kind\<close>

text \<open>
  READ, WRITE, FSTAT and FSETSTAT answer STATUS(FAILURE) for a handle that is not a FILE
  handle.
\<close>

lemma file_ops_wrong_kind:
  fixes h :: "'w host"
  assumes hl: "length hstr < 2 ^ 32"
    and hv: "lookup (handles s) hstr = Some i" and hu: "use (handles s ! i) \<noteq> HANDLE_FILE"
    and room: "40 \<le> unat (count (obuff s))"
  shows "sftp_read h (be32 rid @ wire_string hstr @ be64 off @ be32 len @ rest) s
           = Inr (s\<lparr>obuff := emit (status_bytes rid SSH_FX_FAILURE) (obuff s)\<rparr>)"
    and "length dat < 2 ^ 32 \<Longrightarrow>
         sftp_write h (be32 rid @ wire_string hstr @ be64 off @ wire_string dat @ rest) s
           = Inr (s\<lparr>obuff := emit (status_bytes rid SSH_FX_FAILURE) (obuff s)\<rparr>)"
    and "sftp_fstat h (be32 rid @ wire_string hstr @ rest) s
           = Inr (s\<lparr>obuff := emit (status_bytes rid SSH_FX_FAILURE) (obuff s)\<rparr>)"
    and "flags a AND SSH_FILEXFER_ATTR_EXTENDED = 0 \<Longrightarrow>
         sftp_fsetstat h (be32 rid @ wire_string hstr @ attrs_bytes a @ rest) s
           = Inr (s\<lparr>obuff := emit (status_bytes rid SSH_FX_FAILURE) (obuff s)\<rparr>)"
proof -
  show "sftp_read h (be32 rid @ wire_string hstr @ be64 off @ be32 len @ rest) s
           = Inr (s\<lparr>obuff := emit (status_bytes rid SSH_FX_FAILURE) (obuff s)\<rparr>)"
    using hu by (simp add: sftp_read_def Let_def get_uint32_be32 get_handle_lookup [OF hl]
          get_uint64_be64 bind_r_def hv reply_def put_status_emit room)
  show "length dat < 2 ^ 32 \<Longrightarrow>
         sftp_write h (be32 rid @ wire_string hstr @ be64 off @ wire_string dat @ rest) s
           = Inr (s\<lparr>obuff := emit (status_bytes rid SSH_FX_FAILURE) (obuff s)\<rparr>)"
    using hu by (simp add: sftp_write_def get_uint32_be32 get_handle_lookup [OF hl]
          get_uint64_be64 get_data_wire bind_r_def hv reply_def put_status_emit room)
  show "sftp_fstat h (be32 rid @ wire_string hstr @ rest) s
           = Inr (s\<lparr>obuff := emit (status_bytes rid SSH_FX_FAILURE) (obuff s)\<rparr>)"
    using hu by (simp add: sftp_fstat_def get_uint32_be32 get_handle_lookup [OF hl]
          bind_r_def hv reply_def put_status_emit room)
  show "flags a AND SSH_FILEXFER_ATTR_EXTENDED = 0 \<Longrightarrow>
         sftp_fsetstat h (be32 rid @ wire_string hstr @ attrs_bytes a @ rest) s
           = Inr (s\<lparr>obuff := emit (status_bytes rid SSH_FX_FAILURE) (obuff s)\<rparr>)"
    using hu by (simp add: sftp_fsetstat_def get_uint32_be32 get_handle_lookup [OF hl]
          get_attrs_bytes bind_r_def hv reply_def put_status_emit room)
qed

text \<open>
  Every handler that takes a handle answers STATUS(FAILURE) when the decoding yields no
  handle.
\<close>

lemma no_handle_failure:
  fixes h :: "'w host"
  assumes hl: "length hstr < 2 ^ 32"
    and hv: "lookup (handles s) hstr = None"
    and room: "40 \<le> unat (count (obuff s))"
  shows "sftp_close h (be32 rid @ wire_string hstr @ rest) s
           = Inr (s\<lparr>obuff := emit (status_bytes rid SSH_FX_FAILURE) (obuff s)\<rparr>)"
    and "sftp_read h (be32 rid @ wire_string hstr @ be64 off @ be32 len @ rest) s
           = Inr (s\<lparr>obuff := emit (status_bytes rid SSH_FX_FAILURE) (obuff s)\<rparr>)"
    and "length dat < 2 ^ 32 \<Longrightarrow>
         sftp_write h (be32 rid @ wire_string hstr @ be64 off @ wire_string dat @ rest) s
           = Inr (s\<lparr>obuff := emit (status_bytes rid SSH_FX_FAILURE) (obuff s)\<rparr>)"
    and "sftp_fstat h (be32 rid @ wire_string hstr @ rest) s
           = Inr (s\<lparr>obuff := emit (status_bytes rid SSH_FX_FAILURE) (obuff s)\<rparr>)"
    and "flags a AND SSH_FILEXFER_ATTR_EXTENDED = 0 \<Longrightarrow>
         sftp_fsetstat h (be32 rid @ wire_string hstr @ attrs_bytes a @ rest) s
           = Inr (s\<lparr>obuff := emit (status_bytes rid SSH_FX_FAILURE) (obuff s)\<rparr>)"
    and "sftp_readdir h (be32 rid @ wire_string hstr @ rest) s
           = Some (Inr (s\<lparr>obuff := emit (status_bytes rid SSH_FX_FAILURE) (obuff s)\<rparr>))"
proof -
  show "sftp_close h (be32 rid @ wire_string hstr @ rest) s
           = Inr (s\<lparr>obuff := emit (status_bytes rid SSH_FX_FAILURE) (obuff s)\<rparr>)"
    by (simp add: sftp_close_def get_uint32_be32 get_handle_lookup [OF hl]
          bind_r_def hv reply_def put_status_emit room)
  show "sftp_read h (be32 rid @ wire_string hstr @ be64 off @ be32 len @ rest) s
           = Inr (s\<lparr>obuff := emit (status_bytes rid SSH_FX_FAILURE) (obuff s)\<rparr>)"
    by (simp add: sftp_read_def Let_def get_uint32_be32 get_handle_lookup [OF hl]
          get_uint64_be64 bind_r_def hv reply_def put_status_emit room)
  show "length dat < 2 ^ 32 \<Longrightarrow>
         sftp_write h (be32 rid @ wire_string hstr @ be64 off @ wire_string dat @ rest) s
           = Inr (s\<lparr>obuff := emit (status_bytes rid SSH_FX_FAILURE) (obuff s)\<rparr>)"
    by (simp add: sftp_write_def get_uint32_be32 get_handle_lookup [OF hl]
          get_uint64_be64 get_data_wire bind_r_def hv reply_def put_status_emit room)
  show "sftp_fstat h (be32 rid @ wire_string hstr @ rest) s
           = Inr (s\<lparr>obuff := emit (status_bytes rid SSH_FX_FAILURE) (obuff s)\<rparr>)"
    by (simp add: sftp_fstat_def get_uint32_be32 get_handle_lookup [OF hl]
          bind_r_def hv reply_def put_status_emit room)
  show "flags a AND SSH_FILEXFER_ATTR_EXTENDED = 0 \<Longrightarrow>
         sftp_fsetstat h (be32 rid @ wire_string hstr @ attrs_bytes a @ rest) s
           = Inr (s\<lparr>obuff := emit (status_bytes rid SSH_FX_FAILURE) (obuff s)\<rparr>)"
    by (simp add: sftp_fsetstat_def get_uint32_be32 get_handle_lookup [OF hl]
          get_attrs_bytes bind_r_def hv reply_def put_status_emit room)
  show "sftp_readdir h (be32 rid @ wire_string hstr @ rest) s
           = Some (Inr (s\<lparr>obuff := emit (status_bytes rid SSH_FX_FAILURE) (obuff s)\<rparr>))"
    by (simp add: sftp_readdir_def get_uint32_be32 get_handle_lookup [OF hl]
          bind_r_def hv reply_def put_status_emit room)
qed

lemma telldir_fault:
  "os_telldir h (p_dir p_handle) w = Inl a \<Longrightarrow> readdir_loop h p_handle cnt ob w = Some (Inl a)"
  by (subst readdir_loop.simps) simp

text \<open>
  C3 fails on the code for READDIR. \<open>sftp_readdir\<close> tests only that the handle exists,
  not that it is a DIR handle: for a FILE handle it goes on to call \<open>telldir\<close> on the
  \<open>p_dir\<close> of the slot, which no open of a file sets. Here the slot was never a directory,
  \<open>p_dir\<close> is \<open>NULL\<close>, and the call faults; no STATUS(FAILURE) is written.
\<close>

theorem readdir_on_file_handle:
  "sftp_readdir dir_host (be32 7 @ wire_string [0x30, 0x31]) (ready_state one_file_table no_dirs)
     = Some (Inl HostFault)"
proof -
  let ?s = "ready_state one_file_table no_dirs"
  have hl: "length [0x30, 0x31 :: u8] < 2 ^ 32" by simp
  have lk: "lookup (handles ?s) [0x30, 0x31] = Some 0"
    by (rule lookup_01) (simp add: ready_state_def one_file_table_def init_handles_def)
  have room: "9 \<le> unat (count (obuff ?s))" by (simp add: ready_state_def)
  have f: "os_telldir dir_host (p_dir (handles ?s ! 0)) (world ?s) = Inl HostFault"
    by (simp add: dir_telldir_def ready_state_def no_dirs_def)
  show ?thesis
    using get_handle_lookup [OF hl, of "handles ?s" "[]"]
    by (simp add: sftp_readdir_def get_uint32_be32 bind_r_def lk
          name_header_emit(1,2) [OF room, unfolded bind_r_def] telldir_fault [OF f])
qed


end
